theory Spec2Isabelle
  imports Main "HOL-Library.Word" "HOL-Library.Monad_Syntax"
begin

section \<open>Data model (src/kernel/task.h)\<close>

type_synonym u8 = "8 word"
type_synonym u32 = "32 word"
type_synonym u64 = "64 word"

text \<open>\<^verbatim>\<open>typedef enum task_state_t { READY, RUNNING, BLOCKED }\<close>\<close>

datatype task_state_t = READY | RUNNING | BLOCKED

text \<open>\<^verbatim>\<open>typedef struct task_id_t { uint32_t vms_id; uint32_t thread_id; }\<close>\<close>

record task_id_t =
  vms_id :: u32
  thread_id :: u32

text \<open>
  \<^verbatim>\<open>thread_t\<close> is declared in processor.h, which is not among the sources.
  Its fields are taken from their uses in task.c: the return address \<^verbatim>\<open>ra\<close>, the
  stack pointer \<^verbatim>\<open>sp\<close> and the array \<^verbatim>\<open>s\<close> of saved callee registers, written at the
  indices 0 to 11.
\<close>

record thread_t =
  ra :: u64
  sp :: u64
  s :: "u64 list"

text \<open>
  \<^verbatim>\<open>typedef struct task_t { task_id_t task_id; uint8_t prio; task_state_t state;
  thread_t thread; }\<close>
\<close>

record task_t =
  task_id :: task_id_t
  prio :: u8
  state :: task_state_t
  thread :: thread_t

text \<open>
  A \<^verbatim>\<open>task_t *\<close> is either \<^verbatim>\<open>NULL\<close> (\<open>None\<close>) or a reference to a control block:
  \<^verbatim>\<open>&idle_task\<close>, the statically allocated idle task of sched.c, or the control block
  of some other task. The scheduler does no arithmetic on these pointers.
\<close>

datatype task_ref = IDLE_TASK | TASK nat

type_synonym task_ptr = "task_ref option"

text \<open>
  What C leaves undefined is a value of the model: dereferencing \<^verbatim>\<open>NULL\<close>, and
  indexing \<^verbatim>\<open>run_queue\<close> outside its \<^verbatim>\<open>MAX_PRIO\<close> elements.
\<close>

datatype fault = NullPointer | OutOfBounds

section \<open>Scheduler (src/kernel/sched.c)\<close>

text \<open>\<^verbatim>\<open>#define MAX_PRIO 255\<close> and \<^verbatim>\<open>#define IDLE_PRIO 0\<close>\<close>

definition MAX_PRIO :: nat where
  "MAX_PRIO = 255"

definition IDLE_PRIO :: u8 where
  "IDLE_PRIO = 0"

text \<open>
  The static initialiser of \<^verbatim>\<open>idle_task\<close>: both identity fields \<^verbatim>\<open>NULL\<close>, priority
  \<^verbatim>\<open>IDLE_PRIO\<close>, state \<^verbatim>\<open>READY\<close>; the members it does not name are zero, as for every
  object of static storage. (The initialiser also names a member \<^verbatim>\<open>stack\<close>, which the
  \<^verbatim>\<open>task_t\<close> of task.h does not have; it is left out.)
\<close>

definition idle_task :: task_t where
  "idle_task =
     \<lparr>task_id = \<lparr>vms_id = 0, thread_id = 0\<rparr>, prio = IDLE_PRIO, state = READY,
      thread = \<lparr>ra = 0, sp = 0, s = replicate 12 0\<rparr>\<rparr>"

text \<open>
  The state the scheduler works on: \<^verbatim>\<open>static task_t *run_queue[MAX_PRIO]\<close>,
  \<^verbatim>\<open>static task_t *current_task\<close>, the memory that holds the task control blocks
  (\<open>tcb\<close>, read through a task reference), and the processor's \<^verbatim>\<open>ra\<close>, \<^verbatim>\<open>sp\<close> and
  callee-saved registers (\<open>cpu\<close>), which the context switch saves and restores.
\<close>

record kernel =
  run_queue :: "task_ptr list"
  current_task :: task_ptr
  tcb :: "task_ref \<Rightarrow> task_t"
  cpu :: thread_t

text \<open>
  The loop of \<^verbatim>\<open>sched_get_next_task\<close>:
  \<^verbatim>\<open>while (prio_idx >= 0) { if (run_queue[prio_idx]) break; prio_idx -= 1; }
  return run_queue[prio_idx];\<close>
  \<^verbatim>\<open>prio_idx\<close> is a \<^verbatim>\<open>uint8_t\<close>: the loop condition compares its (never negative) value
  with 0, and \<^verbatim>\<open>prio_idx -= 1\<close> at 0 gives 255. Reading \<^verbatim>\<open>run_queue[255]\<close> is outside the
  array of \<^verbatim>\<open>MAX_PRIO\<close> elements.
\<close>

function scan_run_queue :: "task_ptr list \<Rightarrow> u8 \<Rightarrow> fault + task_ptr" where
  "scan_run_queue rq prio_idx =
     (if (0::int) \<le> uint prio_idx then
        (if MAX_PRIO \<le> unat prio_idx then Inl OutOfBounds
         else if rq ! unat prio_idx \<noteq> None then Inr (rq ! unat prio_idx)
         else scan_run_queue rq (prio_idx - 1))
      else
        (if MAX_PRIO \<le> unat prio_idx then Inl OutOfBounds
         else Inr (rq ! unat prio_idx)))"
  by pat_completeness auto
termination
proof (relation "measure (\<lambda>(rq, prio_idx). unat (prio_idx + 1))")
  show "wf (measure (\<lambda>(rq, prio_idx). unat (prio_idx + 1)))"
    by simp
next
  fix rq :: "task_ptr list" and prio_idx :: u8
  assume "\<not> MAX_PRIO \<le> unat prio_idx"
  then have "unat prio_idx < 255"
    by (simp add: MAX_PRIO_def)
  then have "unat (prio_idx + 1) = unat prio_idx + 1"
    by (simp add: unat_word_ariths)
  then show "((rq, prio_idx - 1), (rq, prio_idx)) \<in> measure (\<lambda>(rq, prio_idx). unat (prio_idx + 1))"
    by simp
qed

declare scan_run_queue.simps [simp del]

text \<open>\<^verbatim>\<open>uint8_t prio_idx = MAX_PRIO - 1;\<close> and the loop.\<close>

definition sched_get_next_task :: "kernel \<Rightarrow> fault + task_ptr" where
  "sched_get_next_task st = scan_run_queue (run_queue st) (of_nat (MAX_PRIO - 1))"

text \<open>\<^verbatim>\<open>run_queue[task->prio] = task;\<close>\<close>

definition sched_add_task :: "task_ptr \<Rightarrow> kernel \<Rightarrow> fault + kernel" where
  "sched_add_task task st =
     (case task of
        None \<Rightarrow> Inl NullPointer
      | Some r \<Rightarrow>
          (if MAX_PRIO \<le> unat (prio (tcb st r)) then Inl OutOfBounds
           else Inr (st\<lparr>run_queue := (run_queue st)[unat (prio (tcb st r)) := task]\<rparr>)))"

text \<open>\<^verbatim>\<open>run_queue[task->prio] = NULL;\<close>\<close>

definition sched_remove_task :: "task_ptr \<Rightarrow> kernel \<Rightarrow> fault + kernel" where
  "sched_remove_task task st =
     (case task of
        None \<Rightarrow> Inl NullPointer
      | Some r \<Rightarrow>
          (if MAX_PRIO \<le> unat (prio (tcb st r)) then Inl OutOfBounds
           else Inr (st\<lparr>run_queue := (run_queue st)[unat (prio (tcb st r)) := None]\<rparr>)))"

text \<open>\<^verbatim>\<open>return current_task;\<close>\<close>

definition sched_get_current_task :: "kernel \<Rightarrow> task_ptr" where
  "sched_get_current_task st = current_task st"

text \<open>\<^verbatim>\<open>current_task = task;\<close>\<close>

definition sched_set_current_task :: "task_ptr \<Rightarrow> kernel \<Rightarrow> kernel" where
  "sched_set_current_task task st = st\<lparr>current_task := task\<rparr>"

text \<open>
  Modelled from the spec: \<^verbatim>\<open>task_set_state\<close>, which sched.c calls and the sources
  do not define. The specification describes it as a pure field mutation with no
  validation of the transition: it writes the state field of the task it is given.
\<close>

definition task_set_state :: "task_ptr \<Rightarrow> task_state_t \<Rightarrow> kernel \<Rightarrow> fault + kernel" where
  "task_set_state task new_state st =
     (case task of
        None \<Rightarrow> Inl NullPointer
      | Some r \<Rightarrow> Inr (st\<lparr>tcb := (tcb st)(r := (tcb st r)\<lparr>state := new_state\<rparr>)\<rparr>))"

text \<open>
  Modelled from the spec: \<^verbatim>\<open>_switch_to\<close>, the context-switch primitive, which is
  external to sched.c. The specification describes it as saving the callee-saved
  registers and the stack pointer of the outgoing context into its record, then loading
  those of the incoming context. It touches the \<^verbatim>\<open>thread\<close> member of the two control
  blocks and the processor, and nothing else.
\<close>

definition switch_to :: "task_ref \<Rightarrow> task_ref \<Rightarrow> kernel \<Rightarrow> kernel" where
  "switch_to prev_thread next_thread st =
     (let saved = (tcb st)(prev_thread := (tcb st prev_thread)\<lparr>thread := cpu st\<rparr>)
      in st\<lparr>tcb := saved, cpu := thread (saved next_thread)\<rparr>)"

text \<open>\<^verbatim>\<open>_switch_to(&prev_task->thread, &new_task->thread);\<close>\<close>

definition sched_switch :: "task_ptr \<Rightarrow> task_ptr \<Rightarrow> kernel \<Rightarrow> fault + kernel" where
  "sched_switch prev_task new_task st =
     (case prev_task of
        None \<Rightarrow> Inl NullPointer
      | Some p \<Rightarrow>
          (case new_task of
             None \<Rightarrow> Inl NullPointer
           | Some n \<Rightarrow> Inr (switch_to p n st)))"

text \<open>
  \<^verbatim>\<open>prev_task = sched_get_current_task(); new_task = sched_get_next_task();
  task_set_state(new_task, RUNNING); sched_set_current_task(new_task);
  sched_switch(prev_task, new_task);\<close>
\<close>

definition sched_run :: "kernel \<Rightarrow> fault + kernel" where
  "sched_run st =
     (let prev_task = sched_get_current_task st in
      case sched_get_next_task st of
        Inl e \<Rightarrow> Inl e
      | Inr new_task \<Rightarrow>
          (case task_set_state new_task RUNNING st of
             Inl e \<Rightarrow> Inl e
           | Inr st1 \<Rightarrow> sched_switch prev_task new_task (sched_set_current_task new_task st1)))"

text \<open>\<^verbatim>\<open>current_task = &idle_task; sched_add_task(&idle_task);\<close>\<close>

definition sched_init :: "kernel \<Rightarrow> fault + kernel" where
  "sched_init st = sched_add_task (Some IDLE_TASK) (st\<lparr>current_task := Some IDLE_TASK\<rparr>)"

text \<open>
  A sequence of calls of \<^verbatim>\<open>sched_add_task\<close> and \<^verbatim>\<open>sched_remove_task\<close>, run one after
  the other; it stops at the first call that faults.
\<close>

datatype sched_call = ADD task_ptr | REMOVE task_ptr

fun sched_calls :: "sched_call list \<Rightarrow> kernel \<Rightarrow> fault + kernel" where
  "sched_calls [] st = Inr st"
| "sched_calls (ADD task # calls) st =
     (case sched_add_task task st of Inl e \<Rightarrow> Inl e | Inr st' \<Rightarrow> sched_calls calls st')"
| "sched_calls (REMOVE task # calls) st =
     (case sched_remove_task task st of Inl e \<Rightarrow> Inl e | Inr st' \<Rightarrow> sched_calls calls st')"

text \<open>
  A call that leaves the slot of the idle task alone: removal goes by priority, so this
  is any call but the removal of a task of priority \<^verbatim>\<open>IDLE_PRIO\<close>.
\<close>

fun keeps_idle :: "kernel \<Rightarrow> sched_call \<Rightarrow> bool" where
  "keeps_idle st (ADD task) = True"
| "keeps_idle st (REMOVE None) = True"
| "keeps_idle st (REMOVE (Some r)) = (prio (tcb st r) \<noteq> IDLE_PRIO)"

text \<open>
  A task reaches the run queue only through \<^verbatim>\<open>sched_add_task\<close>, which files it under
  its own priority, and nothing in the sources writes a priority afterwards: in every
  state the scheduler can reach, a task stored in slot \<open>i\<close> has priority \<open>i\<close>.
\<close>

definition queue_inv :: "kernel \<Rightarrow> bool" where
  "queue_inv st =
     (\<forall>i<MAX_PRIO. case run_queue st ! i of None \<Rightarrow> True | Some r \<Rightarrow> unat (prio (tcb st r)) = i)"

text \<open>What a call left behind, read off its result; a fault leaves nothing to read.\<close>

definition task_state_in :: "fault + kernel \<Rightarrow> task_ref \<Rightarrow> task_state_t option" where
  "task_state_in res r = (case res of Inl e \<Rightarrow> None | Inr st \<Rightarrow> Some (state (tcb st r)))"

definition current_task_in :: "fault + kernel \<Rightarrow> task_ptr" where
  "current_task_in res = (case res of Inl e \<Rightarrow> None | Inr st \<Rightarrow> current_task st)"

subsection \<open>Example states\<close>

text \<open>
  A memory of control blocks for the examples: the idle task as sched.c initialises it,
  and a ready task \<open>TASK n\<close> of priority \<open>n mod 100\<close>, so that \<open>TASK 5\<close> and \<open>TASK 105\<close>
  are two tasks of priority 5.
\<close>

definition example_tcb :: "task_ref \<Rightarrow> task_t" where
  "example_tcb r =
     (case r of IDLE_TASK \<Rightarrow> idle_task | TASK n \<Rightarrow> idle_task\<lparr>prio := of_nat (n mod 100)\<rparr>)"

definition zero_thread :: thread_t where
  "zero_thread = \<lparr>ra = 0, sp = 0, s = replicate 12 0\<rparr>"

text \<open>Before \<^verbatim>\<open>sched_init\<close>: the static variables of sched.c are zero.\<close>

definition boot :: kernel where
  "boot = \<lparr>run_queue = replicate MAX_PRIO None, current_task = None,
           tcb = example_tcb, cpu = zero_thread\<rparr>"

text \<open>After \<^verbatim>\<open>sched_init\<close>; then with tasks added at the priorities 5, 10 and 20.\<close>

definition booted :: kernel where
  "booted = boot\<lparr>run_queue := (replicate MAX_PRIO None)[0 := Some IDLE_TASK],
                 current_task := Some IDLE_TASK\<rparr>"

definition one_task :: kernel where
  "one_task = booted\<lparr>run_queue :=
     (replicate MAX_PRIO None)[0 := Some IDLE_TASK, 5 := Some (TASK 5)]\<rparr>"

definition replaced :: kernel where
  "replaced = booted\<lparr>run_queue :=
     (replicate MAX_PRIO None)[0 := Some IDLE_TASK, 5 := Some (TASK 105)]\<rparr>"

definition two_tasks :: kernel where
  "two_tasks = booted\<lparr>run_queue :=
     (replicate MAX_PRIO None)[0 := Some IDLE_TASK, 5 := Some (TASK 5), 10 := Some (TASK 10)]\<rparr>"

definition three_tasks :: kernel where
  "three_tasks = booted\<lparr>run_queue :=
     (replicate MAX_PRIO None)[0 := Some IDLE_TASK, 5 := Some (TASK 5), 10 := Some (TASK 10),
       20 := Some (TASK 20)]\<rparr>"

text \<open>The state \<open>two_tasks\<close> while \<open>TASK 10\<close> is the current task.\<close>

definition two_tasks_running :: kernel where
  "two_tasks_running = two_tasks\<lparr>current_task := Some (TASK 10)\<rparr>"

text \<open>Two tasks are added to the state \<open>booted\<close> and the second is removed again.\<close>

definition three_calls :: "sched_call list" where
  "three_calls = [ADD (Some (TASK 5)), ADD (Some (TASK 10)), REMOVE (Some (TASK 10))]"

section \<open>Task creation (src/kernel/task.c)\<close>

text \<open>
  Modelled from the spec: \<^verbatim>\<open>ax_return_t\<close> and \<^verbatim>\<open>AX_OK\<close> come from common.h, which is not
  among the sources. The specification describes the result convention as a
  success sentinel against a generic failure.
\<close>

datatype ax_return_t = AX_OK | AX_FAILURE

text \<open>
  \<^verbatim>\<open>ax_return_t task_create(task_t *task, void (*fn)(void), stack_t *stack)\<close>, statement
  by statement. The task behind the pointer is passed in and passed back with the code
  returned; function and stack pointers are their addresses. \<^verbatim>\<open>STACK_SIZE\<close> is a constant
  of common.h and is a parameter here. The members the function calls \<^verbatim>\<open>task->vm_id\<close> and
  \<^verbatim>\<open>task->thread_id\<close> are the two identity fields, \<^verbatim>\<open>task_id.vms_id\<close> and
  \<^verbatim>\<open>task_id.thread_id\<close> in task.h. The sum \<^verbatim>\<open>(uint64_t)stack + STACK_SIZE - 1\<close> is one of
  64-bit unsigned integers.
\<close>

definition task_create :: "u64 \<Rightarrow> task_t \<Rightarrow> u64 \<Rightarrow> u64 \<Rightarrow> ax_return_t \<times> task_t" where
  "task_create STACK_SIZE task fn stack =
     (let task = task\<lparr>task_id := (task_id task)\<lparr>vms_id := 0\<rparr>\<rparr>;
          task = task\<lparr>task_id := (task_id task)\<lparr>thread_id := 0\<rparr>\<rparr>;
          task = task\<lparr>thread := (thread task)\<lparr>ra := fn\<rparr>\<rparr>;
          task = task\<lparr>thread := (thread task)\<lparr>sp := stack + STACK_SIZE - 1\<rparr>\<rparr>;
          task = task\<lparr>thread := (thread task)\<lparr>s := (s (thread task))[0 := 0]\<rparr>\<rparr>;
          task = task\<lparr>thread := (thread task)\<lparr>s := (s (thread task))[1 := 0]\<rparr>\<rparr>;
          task = task\<lparr>thread := (thread task)\<lparr>s := (s (thread task))[2 := 0]\<rparr>\<rparr>;
          task = task\<lparr>thread := (thread task)\<lparr>s := (s (thread task))[3 := 0]\<rparr>\<rparr>;
          task = task\<lparr>thread := (thread task)\<lparr>s := (s (thread task))[4 := 0]\<rparr>\<rparr>;
          task = task\<lparr>thread := (thread task)\<lparr>s := (s (thread task))[5 := 0]\<rparr>\<rparr>;
          task = task\<lparr>thread := (thread task)\<lparr>s := (s (thread task))[6 := 0]\<rparr>\<rparr>;
          task = task\<lparr>thread := (thread task)\<lparr>s := (s (thread task))[7 := 0]\<rparr>\<rparr>;
          task = task\<lparr>thread := (thread task)\<lparr>s := (s (thread task))[8 := 0]\<rparr>\<rparr>;
          task = task\<lparr>thread := (thread task)\<lparr>s := (s (thread task))[9 := 0]\<rparr>\<rparr>;
          task = task\<lparr>thread := (thread task)\<lparr>s := (s (thread task))[10 := 0]\<rparr>\<rparr>;
          task = task\<lparr>thread := (thread task)\<lparr>s := (s (thread task))[11 := 0]\<rparr>\<rparr>
      in (AX_OK, task))"

text \<open>
  An example control block that has been in use: blocked, of priority 255 (one past the
  last level of the run queue), with identity and registers that are not zero.
\<close>

definition stale_task :: task_t where
  "stale_task =
     \<lparr>task_id = \<lparr>vms_id = 3, thread_id = 4\<rparr>, prio = 255, state = BLOCKED,
      thread = \<lparr>ra = 0x1234, sp = 0x5678, s = [1, 2, 3, 4, 5, 6, 7, 8, 9, 10, 11, 12]\<rparr>\<rparr>"

section \<open>Stack frame builder (src/arch/task_arch.c)\<close>

text \<open>
  The constants the builder takes from common.h and offsets.h, which are not among the
  sources: the sizes \<^verbatim>\<open>LWORD_SIZE\<close> and \<^verbatim>\<open>DWORD_SIZE\<close>, and for each of the three
  frames its length and the byte offset of each register slot. They are parameters of
  the model, under the names the source gives them. \<open>THREAD_SP\<close> is the byte offset of
  the member \<^verbatim>\<open>thread.sp\<close> within \<^verbatim>\<open>task_t\<close>, which the compiler derives from processor.h.
\<close>

record layout =
  LWORD_SIZE :: u64
  DWORD_SIZE :: u64
  KERNEL_STACK_FRAME_LENGTH :: u64
  KERNEL_STACK_FRAME_MEPC :: u64
  KERNEL_STACK_FRAME_RA :: u64
  CALLER_STACK_FRAME_LENGTH :: u64
  CALLER_STACK_FRAME_T0 :: u64
  CALLER_STACK_FRAME_T1 :: u64
  CALLER_STACK_FRAME_T2 :: u64
  CALLER_STACK_FRAME_T3 :: u64
  CALLER_STACK_FRAME_T4 :: u64
  CALLER_STACK_FRAME_T5 :: u64
  CALLER_STACK_FRAME_T6 :: u64
  CALLER_STACK_FRAME_A0 :: u64
  CALLER_STACK_FRAME_A1 :: u64
  CALLER_STACK_FRAME_A2 :: u64
  CALLER_STACK_FRAME_A3 :: u64
  CALLER_STACK_FRAME_A4 :: u64
  CALLER_STACK_FRAME_A5 :: u64
  CALLER_STACK_FRAME_A6 :: u64
  CALLER_STACK_FRAME_A7 :: u64
  CALLEE_STACK_FRAME_LENGTH :: u64
  CALLEE_STACK_FRAME_S0 :: u64
  CALLEE_STACK_FRAME_S1 :: u64
  CALLEE_STACK_FRAME_S2 :: u64
  CALLEE_STACK_FRAME_S3 :: u64
  CALLEE_STACK_FRAME_S4 :: u64
  CALLEE_STACK_FRAME_S5 :: u64
  CALLEE_STACK_FRAME_S6 :: u64
  CALLEE_STACK_FRAME_S7 :: u64
  CALLEE_STACK_FRAME_S8 :: u64
  CALLEE_STACK_FRAME_S9 :: u64
  CALLEE_STACK_FRAME_S10 :: u64
  CALLEE_STACK_FRAME_S11 :: u64
  THREAD_SP :: u64

text \<open>
  Memory as the builder sees it: 64-bit cells, each named by its byte address. Every
  access of the function is through a \<^verbatim>\<open>uint64_t *\<close>, for which C asks an address that is
  a multiple of 8; an access at any other address is undefined, and \<open>None\<close> here. Two
  accesses the model allows are therefore to the same cell or to cells that do not
  overlap.
\<close>

type_synonym memory = "u64 \<Rightarrow> u64"

definition load64 :: "u64 \<Rightarrow> memory \<Rightarrow> u64 option" where
  "load64 a m = (if unat a mod 8 = 0 then Some (m a) else None)"

definition store64 :: "u64 \<Rightarrow> u64 \<Rightarrow> memory \<Rightarrow> memory option" where
  "store64 a x m = (if unat a mod 8 = 0 then Some (m(a := x)) else None)"

text \<open>
  The three statement forms of the function. The task sits at the base of the stack
  (\<^verbatim>\<open>task_t *task = (task_t *)stack\<close>), so \<^verbatim>\<open>task->thread.sp\<close> is itself a cell of the
  memory the frames are written to, at the address \<open>sp_field\<close>; it is read again
  wherever the source names it.
\<close>

text \<open>\<^verbatim>\<open>task->thread.sp = x;\<close>\<close>

definition sp_assign :: "u64 \<Rightarrow> u64 \<Rightarrow> memory \<Rightarrow> memory option" where
  "sp_assign sp_field x m = store64 sp_field x m"

text \<open>\<^verbatim>\<open>task->thread.sp -= n;\<close>\<close>

definition sp_sub :: "u64 \<Rightarrow> u64 \<Rightarrow> memory \<Rightarrow> memory option" where
  "sp_sub sp_field n m = do { v \<leftarrow> load64 sp_field m; store64 sp_field (v - n) m }"

text \<open>\<^verbatim>\<open>*(uint64_t *)(task->thread.sp + off) = x;\<close>\<close>

definition sp_store :: "u64 \<Rightarrow> u64 \<Rightarrow> u64 \<Rightarrow> memory \<Rightarrow> memory option" where
  "sp_store sp_field off x m = do { v \<leftarrow> load64 sp_field m; store64 (v + off) x m }"

text \<open>
  \<^verbatim>\<open>void task_stack_init(stack_t *stack, uint64_t stack_size, void (*task_entry)(void))\<close>,
  one line of the model for each statement of the source. \<open>task_runtime\<close> and
  \<open>ret_from_interrupt\<close> are the addresses \<^verbatim>\<open>(uint64_t)task_runtime\<close> and
  \<^verbatim>\<open>(uint64_t)&_ret_from_interrupt\<close>, fixed at link time. The function returns nothing:
  its result is the memory it leaves, with the initial stack pointer in
  \<^verbatim>\<open>task->thread.sp\<close>.
\<close>

definition task_stack_init ::
  "layout \<Rightarrow> u64 \<Rightarrow> u64 \<Rightarrow> u64 \<Rightarrow> u64 \<Rightarrow> u64 \<Rightarrow> memory \<Rightarrow> memory option" where
  "task_stack_init k task_runtime ret_from_interrupt stack stack_size task_entry m =
     (let sp_field = stack + THREAD_SP k in
      do {
        m \<leftarrow> sp_assign sp_field (stack + stack_size - LWORD_SIZE k) m;
        m \<leftarrow> sp_sub sp_field (KERNEL_STACK_FRAME_LENGTH k) m;
        m \<leftarrow> sp_store sp_field (KERNEL_STACK_FRAME_MEPC k) task_runtime m;
        m \<leftarrow> sp_store sp_field (KERNEL_STACK_FRAME_RA k) 0 m;
        m \<leftarrow> sp_sub sp_field (CALLER_STACK_FRAME_LENGTH k) m;
        m \<leftarrow> sp_store sp_field (CALLER_STACK_FRAME_T0 k) 0 m;
        m \<leftarrow> sp_store sp_field (CALLER_STACK_FRAME_T1 k) 0 m;
        m \<leftarrow> sp_store sp_field (CALLER_STACK_FRAME_T2 k) 0 m;
        m \<leftarrow> sp_store sp_field (CALLER_STACK_FRAME_T3 k) 0 m;
        m \<leftarrow> sp_store sp_field (CALLER_STACK_FRAME_T4 k) 0 m;
        m \<leftarrow> sp_store sp_field (CALLER_STACK_FRAME_T5 k) 0 m;
        m \<leftarrow> sp_store sp_field (CALLER_STACK_FRAME_T6 k) 0 m;
        m \<leftarrow> sp_store sp_field (CALLER_STACK_FRAME_A0 k) task_entry m;
        m \<leftarrow> sp_store sp_field (CALLER_STACK_FRAME_A1 k) 0 m;
        m \<leftarrow> sp_store sp_field (CALLER_STACK_FRAME_A2 k) 0 m;
        m \<leftarrow> sp_store sp_field (CALLER_STACK_FRAME_A3 k) 0 m;
        m \<leftarrow> sp_store sp_field (CALLER_STACK_FRAME_A4 k) 0 m;
        m \<leftarrow> sp_store sp_field (CALLER_STACK_FRAME_A5 k) 0 m;
        m \<leftarrow> sp_store sp_field (CALLER_STACK_FRAME_A6 k) 0 m;
        m \<leftarrow> sp_store sp_field (CALLER_STACK_FRAME_A7 k) 0 m;
        m \<leftarrow> sp_sub sp_field (LWORD_SIZE k) m;
        m \<leftarrow> sp_store sp_field (DWORD_SIZE k) ret_from_interrupt m;
        m \<leftarrow> sp_sub sp_field (CALLEE_STACK_FRAME_LENGTH k) m;
        m \<leftarrow> sp_store sp_field (CALLEE_STACK_FRAME_S0 k) 0 m;
        m \<leftarrow> sp_store sp_field (CALLEE_STACK_FRAME_S1 k) 0 m;
        m \<leftarrow> sp_store sp_field (CALLEE_STACK_FRAME_S2 k) 0 m;
        m \<leftarrow> sp_store sp_field (CALLEE_STACK_FRAME_S3 k) 0 m;
        m \<leftarrow> sp_store sp_field (CALLEE_STACK_FRAME_S4 k) 0 m;
        m \<leftarrow> sp_store sp_field (CALLEE_STACK_FRAME_S5 k) 0 m;
        m \<leftarrow> sp_store sp_field (CALLEE_STACK_FRAME_S6 k) 0 m;
        m \<leftarrow> sp_store sp_field (CALLEE_STACK_FRAME_S7 k) 0 m;
        m \<leftarrow> sp_store sp_field (CALLEE_STACK_FRAME_S8 k) 0 m;
        m \<leftarrow> sp_store sp_field (CALLEE_STACK_FRAME_S9 k) 0 m;
        m \<leftarrow> sp_store sp_field (CALLEE_STACK_FRAME_S10 k) 0 m;
        sp_store sp_field (CALLEE_STACK_FRAME_S11 k) 0 m
      })"

text \<open>
  What the function leaves in a cell, and the initial stack pointer it computes: what
  \<^verbatim>\<open>task->thread.sp\<close> holds when it returns.
\<close>

definition peek :: "u64 \<Rightarrow> memory option \<Rightarrow> u64 option" where
  "peek a res = map_option (\<lambda>m. m a) res"

definition initial_sp :: "layout \<Rightarrow> u64 \<Rightarrow> memory option \<Rightarrow> u64 option" where
  "initial_sp k stack res = peek (stack + THREAD_SP k) res"

subsection \<open>The frames as lists of stores\<close>

text \<open>A run of stores relative to the stack pointer, and a frame: reserve, then store.\<close>

fun store_regs :: "u64 \<Rightarrow> (u64 \<times> u64) list \<Rightarrow> memory \<Rightarrow> memory option" where
  "store_regs sp_field [] m = Some m"
| "store_regs sp_field ((off, x) # rest) m =
     do { m \<leftarrow> sp_store sp_field off x m; store_regs sp_field rest m }"

definition push_frame :: "u64 \<Rightarrow> u64 \<Rightarrow> (u64 \<times> u64) list \<Rightarrow> memory \<Rightarrow> memory option" where
  "push_frame sp_field n regs m = do { m \<leftarrow> sp_sub sp_field n m; store_regs sp_field regs m }"

text \<open>The stores of the three frames, in the order of the source.\<close>

definition kernel_regs :: "layout \<Rightarrow> u64 \<Rightarrow> (u64 \<times> u64) list" where
  "kernel_regs k task_runtime =
     [(KERNEL_STACK_FRAME_MEPC k, task_runtime), (KERNEL_STACK_FRAME_RA k, 0)]"

definition caller_regs :: "layout \<Rightarrow> u64 \<Rightarrow> (u64 \<times> u64) list" where
  "caller_regs k task_entry =
     [(CALLER_STACK_FRAME_T0 k, 0), (CALLER_STACK_FRAME_T1 k, 0), (CALLER_STACK_FRAME_T2 k, 0),
      (CALLER_STACK_FRAME_T3 k, 0), (CALLER_STACK_FRAME_T4 k, 0), (CALLER_STACK_FRAME_T5 k, 0),
      (CALLER_STACK_FRAME_T6 k, 0), (CALLER_STACK_FRAME_A0 k, task_entry),
      (CALLER_STACK_FRAME_A1 k, 0), (CALLER_STACK_FRAME_A2 k, 0), (CALLER_STACK_FRAME_A3 k, 0),
      (CALLER_STACK_FRAME_A4 k, 0), (CALLER_STACK_FRAME_A5 k, 0), (CALLER_STACK_FRAME_A6 k, 0),
      (CALLER_STACK_FRAME_A7 k, 0)]"

definition callee_regs :: "layout \<Rightarrow> (u64 \<times> u64) list" where
  "callee_regs k =
     [(CALLEE_STACK_FRAME_S0 k, 0), (CALLEE_STACK_FRAME_S1 k, 0), (CALLEE_STACK_FRAME_S2 k, 0),
      (CALLEE_STACK_FRAME_S3 k, 0), (CALLEE_STACK_FRAME_S4 k, 0), (CALLEE_STACK_FRAME_S5 k, 0),
      (CALLEE_STACK_FRAME_S6 k, 0), (CALLEE_STACK_FRAME_S7 k, 0), (CALLEE_STACK_FRAME_S8 k, 0),
      (CALLEE_STACK_FRAME_S9 k, 0), (CALLEE_STACK_FRAME_S10 k, 0), (CALLEE_STACK_FRAME_S11 k, 0)]"

text \<open>
  The slots of each frame: those of the kernel-entry frame, those of the caller-saved
  frame but that of \<^verbatim>\<open>a0\<close>, and those of the callee-saved frame.
\<close>

definition kernel_slots :: "layout \<Rightarrow> u64 list" where
  "kernel_slots k = [KERNEL_STACK_FRAME_MEPC k, KERNEL_STACK_FRAME_RA k]"

definition caller_zero_slots :: "layout \<Rightarrow> u64 list" where
  "caller_zero_slots k =
     [CALLER_STACK_FRAME_T0 k, CALLER_STACK_FRAME_T1 k, CALLER_STACK_FRAME_T2 k,
      CALLER_STACK_FRAME_T3 k, CALLER_STACK_FRAME_T4 k, CALLER_STACK_FRAME_T5 k,
      CALLER_STACK_FRAME_T6 k, CALLER_STACK_FRAME_A1 k, CALLER_STACK_FRAME_A2 k,
      CALLER_STACK_FRAME_A3 k, CALLER_STACK_FRAME_A4 k, CALLER_STACK_FRAME_A5 k,
      CALLER_STACK_FRAME_A6 k, CALLER_STACK_FRAME_A7 k]"

definition callee_slots :: "layout \<Rightarrow> u64 list" where
  "callee_slots k =
     [CALLEE_STACK_FRAME_S0 k, CALLEE_STACK_FRAME_S1 k, CALLEE_STACK_FRAME_S2 k,
      CALLEE_STACK_FRAME_S3 k, CALLEE_STACK_FRAME_S4 k, CALLEE_STACK_FRAME_S5 k,
      CALLEE_STACK_FRAME_S6 k, CALLEE_STACK_FRAME_S7 k, CALLEE_STACK_FRAME_S8 k,
      CALLEE_STACK_FRAME_S9 k, CALLEE_STACK_FRAME_S10 k, CALLEE_STACK_FRAME_S11 k]"

text \<open>
  Where the frames lie: the value of the stack pointer after the kernel-entry frame,
  the caller-saved frame and the callee-saved frame have been reserved.
\<close>

definition kernel_frame_sp :: "layout \<Rightarrow> u64 \<Rightarrow> u64 \<Rightarrow> u64" where
  "kernel_frame_sp k stack stack_size =
     stack + stack_size - LWORD_SIZE k - KERNEL_STACK_FRAME_LENGTH k"

definition caller_frame_sp :: "layout \<Rightarrow> u64 \<Rightarrow> u64 \<Rightarrow> u64" where
  "caller_frame_sp k stack stack_size =
     kernel_frame_sp k stack stack_size - CALLER_STACK_FRAME_LENGTH k"

definition callee_frame_sp :: "layout \<Rightarrow> u64 \<Rightarrow> u64 \<Rightarrow> u64" where
  "callee_frame_sp k stack stack_size =
     caller_frame_sp k stack stack_size - LWORD_SIZE k - CALLEE_STACK_FRAME_LENGTH k"

text \<open>The bytes the function reserves: a long word and the three frames with the word between.\<close>

definition frames_size :: "layout \<Rightarrow> nat" where
  "frames_size k =
     unat (LWORD_SIZE k) + unat (KERNEL_STACK_FRAME_LENGTH k) + unat (CALLER_STACK_FRAME_LENGTH k)
       + unat (LWORD_SIZE k) + unat (CALLEE_STACK_FRAME_LENGTH k)"

text \<open>
  A layout the builder can work with: sizes, lengths and offsets are multiples of 8,
  every slot lies within the length of its frame, and the word of the trampoline
  within its long word.
\<close>

definition aligned_layout :: "layout \<Rightarrow> bool" where
  "aligned_layout k \<longleftrightarrow>
     (\<forall>x \<in> set ([LWORD_SIZE k, DWORD_SIZE k, KERNEL_STACK_FRAME_LENGTH k,
                  CALLER_STACK_FRAME_LENGTH k, CALLEE_STACK_FRAME_LENGTH k, THREAD_SP k,
                  CALLER_STACK_FRAME_A0 k]
                 @ kernel_slots k @ caller_zero_slots k @ callee_slots k). unat x mod 8 = 0)
     \<and> (\<forall>off \<in> set (kernel_slots k). unat off + 8 \<le> unat (KERNEL_STACK_FRAME_LENGTH k))
     \<and> (\<forall>off \<in> set (CALLER_STACK_FRAME_A0 k # caller_zero_slots k).
           unat off + 8 \<le> unat (CALLER_STACK_FRAME_LENGTH k))
     \<and> unat (DWORD_SIZE k) + 8 \<le> unat (LWORD_SIZE k)
     \<and> (\<forall>off \<in> set (callee_slots k). unat off + 8 \<le> unat (CALLEE_STACK_FRAME_LENGTH k))"

text \<open>
  The two slots that receive a value other than zero, \<^verbatim>\<open>mepc\<close> and \<^verbatim>\<open>a0\<close>, are not the
  slot of another register of their frame.
\<close>

definition distinct_slots :: "layout \<Rightarrow> bool" where
  "distinct_slots k \<longleftrightarrow>
     KERNEL_STACK_FRAME_MEPC k \<noteq> KERNEL_STACK_FRAME_RA k
     \<and> CALLER_STACK_FRAME_A0 k \<notin> set (caller_zero_slots k)"

text \<open>
  A stack block the frames fit in: base and size are multiples of 8, the block does not
  run past the end of the address space, and it holds the frames above the member
  \<^verbatim>\<open>thread.sp\<close> of the task at its base. The function checks none of this.
\<close>

definition stack_fits :: "layout \<Rightarrow> u64 \<Rightarrow> u64 \<Rightarrow> bool" where
  "stack_fits k stack stack_size \<longleftrightarrow>
     unat stack mod 8 = 0 \<and> unat stack_size mod 8 = 0
     \<and> unat stack + unat stack_size < 2 ^ 64
     \<and> unat (THREAD_SP k) + 8 + frames_size k \<le> unat stack_size"

text \<open>
  An example layout after the picture in the source: slots of 8 bytes in the order
  drawn there, a kernel frame of two slots, a caller-saved frame of fifteen slots
  padded to 128 bytes, a callee-saved frame of twelve; \<^verbatim>\<open>thread.sp\<close> in the word after
  \<^verbatim>\<open>task_id\<close>, \<^verbatim>\<open>prio\<close>, \<^verbatim>\<open>state\<close> and \<^verbatim>\<open>thread.ra\<close>.
\<close>

definition example_layout :: layout where
  "example_layout =
     \<lparr>LWORD_SIZE = 16, DWORD_SIZE = 8,
      KERNEL_STACK_FRAME_LENGTH = 16, KERNEL_STACK_FRAME_MEPC = 0, KERNEL_STACK_FRAME_RA = 8,
      CALLER_STACK_FRAME_LENGTH = 128,
      CALLER_STACK_FRAME_T0 = 0, CALLER_STACK_FRAME_T1 = 8, CALLER_STACK_FRAME_T2 = 16,
      CALLER_STACK_FRAME_T3 = 24, CALLER_STACK_FRAME_T4 = 32, CALLER_STACK_FRAME_T5 = 40,
      CALLER_STACK_FRAME_T6 = 48, CALLER_STACK_FRAME_A0 = 56, CALLER_STACK_FRAME_A1 = 64,
      CALLER_STACK_FRAME_A2 = 72, CALLER_STACK_FRAME_A3 = 80, CALLER_STACK_FRAME_A4 = 88,
      CALLER_STACK_FRAME_A5 = 96, CALLER_STACK_FRAME_A6 = 104, CALLER_STACK_FRAME_A7 = 112,
      CALLEE_STACK_FRAME_LENGTH = 96,
      CALLEE_STACK_FRAME_S0 = 0, CALLEE_STACK_FRAME_S1 = 8, CALLEE_STACK_FRAME_S2 = 16,
      CALLEE_STACK_FRAME_S3 = 24, CALLEE_STACK_FRAME_S4 = 32, CALLEE_STACK_FRAME_S5 = 40,
      CALLEE_STACK_FRAME_S6 = 48, CALLEE_STACK_FRAME_S7 = 56, CALLEE_STACK_FRAME_S8 = 64,
      CALLEE_STACK_FRAME_S9 = 72, CALLEE_STACK_FRAME_S10 = 80, CALLEE_STACK_FRAME_S11 = 88,
      THREAD_SP = 24\<rparr>"

text \<open>A memory that holds no zero, so that the zeros the builder writes show.\<close>

definition stale_memory :: memory where
  "stale_memory = (\<lambda>a. 0xDEADBEEF)"

section \<open>Properties of the run-queue scan\<close>

lemma scan_run_queue_hit:
  assumes "n < MAX_PRIO" and "rq ! n \<noteq> None"
  shows "scan_run_queue rq (of_nat n) = Inr (rq ! n)"
proof -
  from assms(1) have "unat (of_nat n :: u8) = n"
    by (simp add: MAX_PRIO_def unat_of_nat)
  with assms show ?thesis
    by (subst scan_run_queue.simps) simp
qed

lemma scan_run_queue_skip:
  assumes "Suc n < MAX_PRIO" and "rq ! Suc n = None"
  shows "scan_run_queue rq (of_nat (Suc n)) = scan_run_queue rq (of_nat n)"
proof -
  from assms(1) have "unat (of_nat (Suc n) :: u8) = Suc n"
    by (simp add: MAX_PRIO_def unat_of_nat del: of_nat_Suc)
  with assms show ?thesis
    by (subst scan_run_queue.simps) simp
qed

lemma scan_run_queue_wrap:
  assumes "rq ! 0 = None"
  shows "scan_run_queue rq 0 = Inl OutOfBounds"
proof -
  have wrap: "(- 1 :: u8) = 255"
    by simp
  from assms have "scan_run_queue rq 0 = scan_run_queue rq 255"
    by (subst scan_run_queue.simps) (simp add: MAX_PRIO_def wrap)
  also have "\<dots> = Inl OutOfBounds"
    by (subst scan_run_queue.simps) (simp add: MAX_PRIO_def)
  finally show ?thesis .
qed

lemma scan_run_queue_first:
  "n < MAX_PRIO \<Longrightarrow> j \<le> n \<Longrightarrow> rq ! j \<noteq> None \<Longrightarrow> (\<forall>k. j < k \<and> k \<le> n \<longrightarrow> rq ! k = None)
     \<Longrightarrow> scan_run_queue rq (of_nat n) = Inr (rq ! j)"
proof (induction n)
  case 0
  then show ?case using scan_run_queue_hit [of 0 rq] by simp
next
  case (Suc n)
  show ?case
  proof (cases "j = Suc n")
    case True
    with Suc.prems show ?thesis using scan_run_queue_hit [of "Suc n" rq] by simp
  next
    case False
    with Suc.prems have "j \<le> n" and "rq ! Suc n = None" by auto
    with Suc show ?thesis using scan_run_queue_skip [of n rq] by simp
  qed
qed

lemma scan_run_queue_empty:
  "n < MAX_PRIO \<Longrightarrow> (\<forall>k\<le>n. rq ! k = None) \<Longrightarrow> scan_run_queue rq (of_nat n) = Inl OutOfBounds"
proof (induction n)
  case 0
  then show ?case using scan_run_queue_wrap [of rq] by simp
next
  case (Suc n)
  then show ?case using scan_run_queue_skip [of n rq] by simp
qed

lemma highest_occupied:
  "rq ! j \<noteq> None \<Longrightarrow> j \<le> n \<Longrightarrow> \<exists>i. j \<le> i \<and> i \<le> n \<and> rq ! i \<noteq> None \<and> (\<forall>k. i < k \<and> k \<le> n \<longrightarrow> rq ! k = None)"
proof (induction n)
  case 0
  then show ?case by auto
next
  case (Suc n)
  show ?case
  proof (cases "rq ! Suc n = None")
    case False
    with Suc.prems show ?thesis by (intro exI [of _ "Suc n"]) auto
  next
    case True
    with Suc.prems have "j \<le> n" by (cases "j = Suc n") auto
    with Suc obtain i where i: "j \<le> i" "i \<le> n" "rq ! i \<noteq> None" "\<forall>k. i < k \<and> k \<le> n \<longrightarrow> rq ! k = None"
      by blast
    with True have "\<forall>k. i < k \<and> k \<le> Suc n \<longrightarrow> rq ! k = None"
      by (auto simp: le_Suc_eq)
    with i show ?thesis by (intro exI [of _ i]) auto
  qed
qed

lemma sched_get_next_task_first:
  assumes "j < MAX_PRIO" and "run_queue st ! j \<noteq> None"
    and "\<forall>k. j < k \<and> k < MAX_PRIO \<longrightarrow> run_queue st ! k = None"
  shows "sched_get_next_task st = Inr (run_queue st ! j)"
  unfolding sched_get_next_task_def
  using assms by (intro scan_run_queue_first) (auto simp: MAX_PRIO_def)

lemma sched_get_next_task_empty:
  assumes "\<forall>k<MAX_PRIO. run_queue st ! k = None"
  shows "sched_get_next_task st = Inl OutOfBounds"
  unfolding sched_get_next_task_def
  using assms by (intro scan_run_queue_empty) (auto simp: MAX_PRIO_def)

lemma sched_get_next_task_highest:
  assumes "j < MAX_PRIO" and "run_queue st ! j \<noteq> None"
  shows "\<exists>i. j \<le> i \<and> i < MAX_PRIO \<and> run_queue st ! i \<noteq> None
           \<and> (\<forall>k. i < k \<and> k < MAX_PRIO \<longrightarrow> run_queue st ! k = None)
           \<and> sched_get_next_task st = Inr (run_queue st ! i)"
proof -
  from assms have "j \<le> MAX_PRIO - 1" by simp
  with assms(2) obtain i where i: "j \<le> i" "i \<le> MAX_PRIO - 1" "run_queue st ! i \<noteq> None"
    "\<forall>k. i < k \<and> k \<le> MAX_PRIO - 1 \<longrightarrow> run_queue st ! k = None"
    using highest_occupied [of "run_queue st" j "MAX_PRIO - 1"] by blast
  from i(2) assms(1) have lt: "i < MAX_PRIO" by simp
  from i(4) have above: "\<forall>k. i < k \<and> k < MAX_PRIO \<longrightarrow> run_queue st ! k = None" by auto
  from lt i(3) above have "sched_get_next_task st = Inr (run_queue st ! i)"
    by (rule sched_get_next_task_first)
  with i(1) lt i(3) above show ?thesis by blast
qed

lemma scan_run_queue_sound:
  "scan_run_queue rq idx = Inr x \<Longrightarrow> \<exists>i<MAX_PRIO. rq ! i = x \<and> x \<noteq> None"
proof (induction rq idx rule: scan_run_queue.induct)
  case (1 rq prio_idx)
  show ?case
  proof (cases "MAX_PRIO \<le> unat prio_idx")
    case True
    with "1.prems" show ?thesis
      by (subst (asm) scan_run_queue.simps) simp
  next
    case False
    show ?thesis
    proof (cases "rq ! unat prio_idx = None")
      case True
      with False "1.prems" have "scan_run_queue rq (prio_idx - 1) = Inr x"
        by (subst (asm) scan_run_queue.simps) simp
      with False True "1.IH" show ?thesis by simp
    next
      case occupied: False
      with False "1.prems" have "x = rq ! unat prio_idx"
        by (subst (asm) scan_run_queue.simps) auto
      with False occupied show ?thesis by (intro exI [of _ "unat prio_idx"]) auto
    qed
  qed
qed

lemma sched_get_next_task_sound:
  "sched_get_next_task st = Inr x \<Longrightarrow> \<exists>i<MAX_PRIO. run_queue st ! i = x \<and> x \<noteq> None"
  unfolding sched_get_next_task_def by (rule scan_run_queue_sound)

lemma queue_inv_slot:
  "queue_inv st \<Longrightarrow> i < MAX_PRIO \<Longrightarrow> run_queue st ! i = Some r \<Longrightarrow> unat (prio (tcb st r)) = i"
  by (auto simp: queue_inv_def split: option.splits)

lemma sched_get_next_task_not_removed:
  assumes "queue_inv st" and "run_queue st ! unat (prio (tcb st r)) = None"
  shows "sched_get_next_task st \<noteq> Inr (Some r)"
proof
  assume "sched_get_next_task st = Inr (Some r)"
  then obtain i where "i < MAX_PRIO" and "run_queue st ! i = Some r"
    using sched_get_next_task_sound by blast
  with assms(1) have "unat (prio (tcb st r)) = i" and "run_queue st ! i \<noteq> None"
    by (auto dest: queue_inv_slot)
  with assms(2) show False by simp
qed

section \<open>Properties of the scheduler operations\<close>

lemma sched_add_task_Some:
  assumes "unat (prio (tcb st r)) < MAX_PRIO"
  shows "sched_add_task (Some r) st = Inr (st\<lparr>run_queue := (run_queue st)[unat (prio (tcb st r)) := Some r]\<rparr>)"
  using assms by (simp add: sched_add_task_def)

lemma sched_remove_task_Some:
  assumes "unat (prio (tcb st r)) < MAX_PRIO"
  shows "sched_remove_task (Some r) st = Inr (st\<lparr>run_queue := (run_queue st)[unat (prio (tcb st r)) := None]\<rparr>)"
  using assms by (simp add: sched_remove_task_def)

lemma sched_add_task_Inr:
  assumes "sched_add_task task st = Inr st'"
  shows "\<exists>r. task = Some r \<and> unat (prio (tcb st r)) < MAX_PRIO
           \<and> st' = st\<lparr>run_queue := (run_queue st)[unat (prio (tcb st r)) := Some r]\<rparr>"
  using assms by (auto simp: sched_add_task_def split: option.splits if_splits)

lemma sched_remove_task_Inr:
  assumes "sched_remove_task task st = Inr st'"
  shows "\<exists>r. task = Some r \<and> unat (prio (tcb st r)) < MAX_PRIO
           \<and> st' = st\<lparr>run_queue := (run_queue st)[unat (prio (tcb st r)) := None]\<rparr>"
  using assms by (auto simp: sched_remove_task_def split: option.splits if_splits)

lemma unat_prio_idle:
  fixes p :: u8
  shows "p \<noteq> IDLE_PRIO \<Longrightarrow> unat p \<noteq> 0"
  by (simp add: IDLE_PRIO_def unat_eq_0)

lemma sched_call_keeps_slot0:
  assumes len: "length (run_queue st) = MAX_PRIO" and occ: "run_queue st ! 0 \<noteq> None"
    and keep: "keeps_idle st c" and run: "sched_calls [c] st = Inr st'"
  shows "length (run_queue st') = MAX_PRIO \<and> run_queue st' ! 0 \<noteq> None \<and> tcb st' = tcb st"
proof (cases c)
  case (ADD task)
  with run have "sched_add_task task st = Inr st'"
    by (simp split: sum.splits)
  then obtain r where "st' = st\<lparr>run_queue := (run_queue st)[unat (prio (tcb st r)) := Some r]\<rparr>"
    using sched_add_task_Inr by blast
  with len occ show ?thesis
    by (cases "unat (prio (tcb st r)) = 0") (simp_all add: MAX_PRIO_def)
next
  case (REMOVE task)
  with run have "sched_remove_task task st = Inr st'"
    by (simp split: sum.splits)
  then obtain r where r: "task = Some r"
    "st' = st\<lparr>run_queue := (run_queue st)[unat (prio (tcb st r)) := None]\<rparr>"
    using sched_remove_task_Inr by blast
  with keep REMOVE have "unat (prio (tcb st r)) \<noteq> 0"
    by (simp add: unat_prio_idle)
  with len occ r(2) show ?thesis
    by simp
qed

lemma keeps_idle_tcb: "tcb st' = tcb st \<Longrightarrow> keeps_idle st' c = keeps_idle st c"
  by (cases "(st, c)" rule: keeps_idle.cases) simp_all

lemma sched_calls_Cons:
  "sched_calls (c # calls) st = Inr st'
     \<Longrightarrow> \<exists>st1. sched_calls [c] st = Inr st1 \<and> sched_calls calls st1 = Inr st'"
  by (cases c) (simp_all split: sum.splits)

lemma sched_calls_keep_slot0:
  assumes "length (run_queue st) = MAX_PRIO" and "run_queue st ! 0 \<noteq> None"
    and "\<forall>c \<in> set calls. keeps_idle st c" and "sched_calls calls st = Inr st'"
  shows "length (run_queue st') = MAX_PRIO \<and> run_queue st' ! 0 \<noteq> None \<and> tcb st' = tcb st"
  using assms
proof (induction calls arbitrary: st)
  case Nil
  then show ?case by simp
next
  case (Cons c calls)
  from Cons.prems(4) obtain st1 where one: "sched_calls [c] st = Inr st1"
    and rest: "sched_calls calls st1 = Inr st'"
    using sched_calls_Cons by blast
  from Cons.prems(3) have keep: "keeps_idle st c"
    by simp
  from sched_call_keeps_slot0 [OF Cons.prems(1,2) keep one]
  have st1: "length (run_queue st1) = MAX_PRIO" "run_queue st1 ! 0 \<noteq> None" "tcb st1 = tcb st"
    by simp_all
  from Cons.prems(3) have later: "\<forall>c \<in> set calls. keeps_idle st1 c"
    by (simp add: keeps_idle_tcb [OF st1(3)])
  from Cons.IH [OF st1(1,2) later rest] st1(3) show ?case
    by simp
qed

lemma sched_run_Some:
  assumes cur: "current_task st = Some p" and nxt: "sched_get_next_task st = Inr (Some n)"
  shows "sched_run st =
           Inr (switch_to p n (st\<lparr>tcb := (tcb st)(n := (tcb st n)\<lparr>state := RUNNING\<rparr>),
                                   current_task := Some n\<rparr>))"
  using assms
  by (simp add: sched_run_def sched_get_current_task_def task_set_state_def
      sched_set_current_task_def sched_switch_def)

lemma switch_to_fields:
  "current_task (switch_to p n st) = current_task st"
  "run_queue (switch_to p n st) = run_queue st"
  "state (tcb (switch_to p n st) r) = state (tcb st r)"
  "prio (tcb (switch_to p n st) r) = prio (tcb st r)"
  by (simp_all add: switch_to_def Let_def)

lemma queue_inv_add:
  assumes "queue_inv st" and "length (run_queue st) = MAX_PRIO"
    and "sched_add_task task st = Inr st'"
  shows "queue_inv st'"
proof -
  from assms(3) obtain r where range: "unat (prio (tcb st r)) < MAX_PRIO"
    and st': "st' = st\<lparr>run_queue := (run_queue st)[unat (prio (tcb st r)) := Some r]\<rparr>"
    using sched_add_task_Inr by blast
  from st' have rq: "run_queue st' = (run_queue st)[unat (prio (tcb st r)) := Some r]"
    and mem: "tcb st' = tcb st"
    by simp_all
  show ?thesis
    unfolding queue_inv_def
  proof (intro allI impI)
    fix i assume i: "i < MAX_PRIO"
    show "case run_queue st' ! i of None \<Rightarrow> True | Some r \<Rightarrow> unat (prio (tcb st' r)) = i"
    proof (cases "i = unat (prio (tcb st r))")
      case True
      with range assms(2) show ?thesis
        by (simp add: rq mem)
    next
      case False
      with assms(1) i show ?thesis
        by (simp add: rq mem queue_inv_def split: option.splits)
    qed
  qed
qed

lemma sched_run_Inr:
  assumes "sched_run st = Inr st'"
  shows "run_queue st' = run_queue st \<and> (\<forall>r. prio (tcb st' r) = prio (tcb st r))"
proof -
  from assms obtain new_task where nxt: "sched_get_next_task st = Inr new_task"
    by (cases "sched_get_next_task st") (simp_all add: sched_run_def)
  with assms obtain n where n: "new_task = Some n"
    by (cases new_task) (simp_all add: sched_run_def task_set_state_def)
  with assms nxt obtain p where p: "current_task st = Some p"
    by (cases "current_task st")
      (simp_all add: sched_run_def task_set_state_def sched_set_current_task_def
        sched_get_current_task_def sched_switch_def)
  from p nxt n have "sched_run st =
      Inr (switch_to p n (st\<lparr>tcb := (tcb st)(n := (tcb st n)\<lparr>state := RUNNING\<rparr>),
                              current_task := Some n\<rparr>))"
    by (simp add: sched_run_Some)
  with assms show ?thesis
    by (auto simp: switch_to_fields)
qed

lemma queue_inv_run:
  assumes "queue_inv st" and "sched_run st = Inr st'"
  shows "queue_inv st'"
  using assms(1) sched_run_Inr [OF assms(2)] by (simp add: queue_inv_def split: option.splits)

lemma queue_inv_init:
  assumes "queue_inv st" and "length (run_queue st) = MAX_PRIO" and "sched_init st = Inr st'"
  shows "queue_inv st'"
proof -
  from assms(1) have "queue_inv (st\<lparr>current_task := Some IDLE_TASK\<rparr>)"
    by (simp add: queue_inv_def split: option.splits)
  with assms(2,3) show ?thesis
    using queue_inv_add [of "st\<lparr>current_task := Some IDLE_TASK\<rparr>" "Some IDLE_TASK" st']
    by (simp add: sched_init_def)
qed

subsection \<open>The example states\<close>

lemma example_queue_simps:
  "run_queue boot = replicate MAX_PRIO None"
  "run_queue booted = (replicate MAX_PRIO None)[0 := Some IDLE_TASK]"
  "run_queue one_task = (replicate MAX_PRIO None)[0 := Some IDLE_TASK, 5 := Some (TASK 5)]"
  "run_queue replaced = (replicate MAX_PRIO None)[0 := Some IDLE_TASK, 5 := Some (TASK 105)]"
  "run_queue two_tasks =
     (replicate MAX_PRIO None)[0 := Some IDLE_TASK, 5 := Some (TASK 5), 10 := Some (TASK 10)]"
  "run_queue three_tasks =
     (replicate MAX_PRIO None)[0 := Some IDLE_TASK, 5 := Some (TASK 5), 10 := Some (TASK 10),
       20 := Some (TASK 20)]"
  "run_queue two_tasks_running = run_queue two_tasks"
  by (simp_all add: boot_def booted_def one_task_def replaced_def two_tasks_def
      three_tasks_def two_tasks_running_def)

lemma example_tcb_simps:
  "tcb boot = example_tcb" "tcb booted = example_tcb" "tcb one_task = example_tcb"
  "tcb replaced = example_tcb" "tcb two_tasks = example_tcb" "tcb three_tasks = example_tcb"
  "tcb two_tasks_running = example_tcb"
  by (simp_all add: boot_def booted_def one_task_def replaced_def two_tasks_def
      three_tasks_def two_tasks_running_def)

lemma example_current_simps:
  "current_task boot = None" "current_task booted = Some IDLE_TASK"
  "current_task one_task = Some IDLE_TASK" "current_task replaced = Some IDLE_TASK"
  "current_task two_tasks = Some IDLE_TASK" "current_task three_tasks = Some IDLE_TASK"
  "current_task two_tasks_running = Some (TASK 10)"
  by (simp_all add: boot_def booted_def one_task_def replaced_def two_tasks_def
      three_tasks_def two_tasks_running_def)

lemma example_prio_simps:
  "prio (example_tcb IDLE_TASK) = IDLE_PRIO"
  "unat (prio (example_tcb IDLE_TASK)) = 0"
  "unat (prio (example_tcb (TASK 5))) = 5"
  "unat (prio (example_tcb (TASK 105))) = 5"
  "unat (prio (example_tcb (TASK 10))) = 10"
  "unat (prio (example_tcb (TASK 20))) = 20"
  "state (example_tcb r) = READY"
  by (simp_all add: example_tcb_def idle_task_def IDLE_PRIO_def split: task_ref.splits)

lemma example_queue_length:
  "length (run_queue boot) = MAX_PRIO" "length (run_queue booted) = MAX_PRIO"
  "length (run_queue one_task) = MAX_PRIO" "length (run_queue replaced) = MAX_PRIO"
  "length (run_queue two_tasks) = MAX_PRIO" "length (run_queue three_tasks) = MAX_PRIO"
  "length (run_queue two_tasks_running) = MAX_PRIO"
  by (simp_all add: example_queue_simps)

lemma example_queue_inv:
  "queue_inv boot" "queue_inv booted" "queue_inv one_task" "queue_inv two_tasks"
  by (auto simp: queue_inv_def example_queue_simps example_tcb_simps example_prio_simps
      IDLE_PRIO_def MAX_PRIO_def nth_list_update split: option.splits if_splits)

section \<open>The claims about the scheduler\<close>

text \<open>
  C1, as amended. When two priority levels \<open>p1 < p2\<close> both hold a task,
  \<^verbatim>\<open>sched_get_next_task\<close> returns the task of the highest occupied level, which is \<open>p2\<close>
  or a level above it, never a level below; it returns the task stored at \<open>p2\<close> when no
  level above \<open>p2\<close> holds a task. (The scan runs from the highest priority downward and
  returns the first occupied slot.)
\<close>

theorem sched_get_next_task_two_levels:
  assumes "p1 < p2" and "p2 < MAX_PRIO"
    and "run_queue st ! p1 \<noteq> None" and "run_queue st ! p2 \<noteq> None"
  shows "(\<exists>i. p2 \<le> i \<and> i < MAX_PRIO \<and> run_queue st ! i \<noteq> None
            \<and> (\<forall>k. i < k \<and> k < MAX_PRIO \<longrightarrow> run_queue st ! k = None)
            \<and> sched_get_next_task st = Inr (run_queue st ! i))
       \<and> ((\<forall>k. p2 < k \<and> k < MAX_PRIO \<longrightarrow> run_queue st ! k = None)
            \<longrightarrow> sched_get_next_task st = Inr (run_queue st ! p2))"
  using assms sched_get_next_task_highest [of p2 st] sched_get_next_task_first [of p2 st]
  by blast

theorem sched_get_next_task_two_levels_witness:
  "(5::nat) < 10 \<and> 10 < MAX_PRIO
     \<and> run_queue two_tasks ! 5 = Some (TASK 5) \<and> run_queue two_tasks ! 10 = Some (TASK 10)
     \<and> sched_get_next_task two_tasks = Inr (Some (TASK 10))"
proof -
  have occ: "run_queue two_tasks ! 5 = Some (TASK 5)" "run_queue two_tasks ! 10 = Some (TASK 10)"
    by (simp_all add: example_queue_simps MAX_PRIO_def)
  have top: "\<forall>k. 10 < k \<and> k < MAX_PRIO \<longrightarrow> run_queue two_tasks ! k = None"
    by (simp add: example_queue_simps MAX_PRIO_def)
  have "sched_get_next_task two_tasks = Inr (run_queue two_tasks ! 10)"
    using sched_get_next_task_two_levels [of 5 10 two_tasks] occ top
    by (simp add: MAX_PRIO_def)
  with occ show ?thesis by (simp add: MAX_PRIO_def)
qed

text \<open>
  C1 as it is written fails when a third level above \<open>p2\<close> is occupied: with tasks at
  the priorities 5, 10 and 20, the levels 5 and 10 both hold a ready task and the scan
  returns the task of level 20.
\<close>

theorem sched_get_next_task_two_levels_counterexample:
  "(5::nat) < 10 \<and> run_queue three_tasks ! 5 = Some (TASK 5)
     \<and> run_queue three_tasks ! 10 = Some (TASK 10)
     \<and> state (tcb three_tasks (TASK 5)) = READY \<and> state (tcb three_tasks (TASK 10)) = READY
     \<and> sched_get_next_task three_tasks = Inr (Some (TASK 20))
     \<and> sched_get_next_task three_tasks \<noteq> Inr (run_queue three_tasks ! 10)"
proof -
  have occ: "run_queue three_tasks ! 5 = Some (TASK 5)" "run_queue three_tasks ! 10 = Some (TASK 10)"
    "run_queue three_tasks ! 20 = Some (TASK 20)"
    by (simp_all add: example_queue_simps MAX_PRIO_def)
  have top: "\<forall>k. 20 < k \<and> k < MAX_PRIO \<longrightarrow> run_queue three_tasks ! k = None"
    by (simp add: example_queue_simps MAX_PRIO_def)
  have "sched_get_next_task three_tasks = Inr (run_queue three_tasks ! 20)"
    using occ top by (intro sched_get_next_task_first) (simp_all add: MAX_PRIO_def)
  with occ show ?thesis
    by (simp add: example_tcb_simps example_prio_simps)
qed

text \<open>
  C2. In every run-queue state whose slot 0 is occupied, the descending scan of
  \<^verbatim>\<open>sched_get_next_task\<close> ends inside the array and returns a task that is not \<^verbatim>\<open>NULL\<close>:
  the task of the highest occupied level. So it does after any sequence of calls of
  \<^verbatim>\<open>sched_add_task\<close> and \<^verbatim>\<open>sched_remove_task\<close> that starts with slot 0 occupied and removes
  no task of the idle priority. The scan ends because of that occupied slot and not
  because of its index: the loop condition \<^verbatim>\<open>prio_idx >= 0\<close> holds for every \<^verbatim>\<open>uint8_t\<close>,
  and over an empty queue the index passes 0, wraps to 255 and the scan reads outside
  the array.
\<close>

theorem sched_get_next_task_idle_invariant:
  "(run_queue st ! 0 \<noteq> None \<longrightarrow>
      (\<exists>i r. i < MAX_PRIO \<and> run_queue st ! i = Some r
          \<and> (\<forall>k. i < k \<and> k < MAX_PRIO \<longrightarrow> run_queue st ! k = None)
          \<and> sched_get_next_task st = Inr (Some r)))
   \<and> (length (run_queue st) = MAX_PRIO \<and> run_queue st ! 0 \<noteq> None
        \<and> (\<forall>c \<in> set calls. keeps_idle st c) \<and> sched_calls calls st = Inr st'
        \<longrightarrow> (\<exists>r. sched_get_next_task st' = Inr (Some r)))
   \<and> ((\<forall>k<MAX_PRIO. run_queue st ! k = None) \<longrightarrow> sched_get_next_task st = Inl OutOfBounds)
   \<and> (0::int) \<le> uint (prio_idx :: u8)"
proof (intro conjI impI)
  assume "run_queue st ! 0 \<noteq> None"
  then obtain i where "i < MAX_PRIO" "run_queue st ! i \<noteq> None"
    "\<forall>k. i < k \<and> k < MAX_PRIO \<longrightarrow> run_queue st ! k = None"
    "sched_get_next_task st = Inr (run_queue st ! i)"
    using sched_get_next_task_highest [of 0 st] by (auto simp: MAX_PRIO_def)
  then show "\<exists>i r. i < MAX_PRIO \<and> run_queue st ! i = Some r
          \<and> (\<forall>k. i < k \<and> k < MAX_PRIO \<longrightarrow> run_queue st ! k = None)
          \<and> sched_get_next_task st = Inr (Some r)"
    by (intro exI [of _ i]) auto
next
  assume "length (run_queue st) = MAX_PRIO \<and> run_queue st ! 0 \<noteq> None
        \<and> (\<forall>c \<in> set calls. keeps_idle st c) \<and> sched_calls calls st = Inr st'"
  then have "run_queue st' ! 0 \<noteq> None"
    using sched_calls_keep_slot0 [of st calls st'] by simp
  then obtain i where "run_queue st' ! i \<noteq> None"
    "sched_get_next_task st' = Inr (run_queue st' ! i)"
    using sched_get_next_task_highest [of 0 st'] by (auto simp: MAX_PRIO_def)
  then show "\<exists>r. sched_get_next_task st' = Inr (Some r)"
    by auto
next
  assume "\<forall>k<MAX_PRIO. run_queue st ! k = None"
  then show "sched_get_next_task st = Inl OutOfBounds"
    by (rule sched_get_next_task_empty)
next
  show "(0::int) \<le> uint prio_idx"
    by simp
qed

theorem sched_get_next_task_idle_invariant_witness:
  "run_queue booted ! 0 = Some IDLE_TASK \<and> sched_get_next_task booted = Inr (Some IDLE_TASK)
     \<and> sched_calls three_calls booted = Inr one_task
     \<and> sched_get_next_task one_task = Inr (Some (TASK 5))
     \<and> run_queue boot = replicate MAX_PRIO None \<and> sched_get_next_task boot = Inl OutOfBounds"
proof -
  have slot0: "run_queue booted ! 0 = Some IDLE_TASK"
    by (simp add: example_queue_simps MAX_PRIO_def)
  have others: "\<And>i. i < MAX_PRIO \<Longrightarrow> run_queue booted ! i \<noteq> None \<Longrightarrow> i = 0"
    by (simp add: example_queue_simps nth_list_update split: if_splits)
  from slot0 obtain i r where "i < MAX_PRIO" "run_queue booted ! i = Some r"
    "sched_get_next_task booted = Inr (Some r)"
    using sched_get_next_task_idle_invariant [of booted "[]" booted, THEN conjunct1] by auto
  with others [of i] slot0 have idle: "sched_get_next_task booted = Inr (Some IDLE_TASK)"
    by simp
  have "(replicate MAX_PRIO None)[0 := Some IDLE_TASK, 5 := Some (TASK 5), 10 := Some (TASK 10),
            10 := None]
          = (replicate MAX_PRIO None)[0 := Some IDLE_TASK, 5 := Some (TASK 5)]"
    by (simp add: list_eq_iff_nth_eq nth_list_update MAX_PRIO_def)
  then have calls: "sched_calls three_calls booted = Inr one_task"
    by (simp add: three_calls_def sched_add_task_def sched_remove_task_def booted_def
        one_task_def boot_def example_prio_simps MAX_PRIO_def)
  have keep: "\<forall>c \<in> set three_calls. keeps_idle booted c"
    by (simp add: three_calls_def example_tcb_simps example_tcb_def IDLE_PRIO_def idle_task_def)
  from slot0 keep calls obtain r where returned: "sched_get_next_task one_task = Inr (Some r)"
    using sched_get_next_task_idle_invariant [of booted three_calls one_task,
        THEN conjunct2, THEN conjunct1]
    by (auto simp: example_queue_length)
  have "sched_get_next_task one_task = Inr (run_queue one_task ! 5)"
    by (rule sched_get_next_task_first) (simp_all add: example_queue_simps MAX_PRIO_def)
  then have task5: "sched_get_next_task one_task = Inr (Some (TASK 5))"
    by (simp add: example_queue_simps MAX_PRIO_def)
  have empty: "sched_get_next_task boot = Inl OutOfBounds"
    using sched_get_next_task_idle_invariant [of boot "[]" boot, THEN conjunct2, THEN conjunct2,
        THEN conjunct1]
    by (simp add: example_queue_simps)
  from slot0 idle calls returned task5 empty show ?thesis
    by (simp add: example_queue_simps)
qed

subsection \<open>Adding and removing\<close>

text \<open>
  C7. \<^verbatim>\<open>sched_add_task\<close> stores the task at \<^verbatim>\<open>run_queue[task->prio]\<close> whatever the slot
  held, and touches no other slot. After adding \<open>a\<close> and then \<open>b\<close>, two tasks of the same
  priority \<open>p\<close> (a level of the queue, \<open>p < MAX_PRIO\<close>), slot \<open>p\<close> holds \<open>b\<close>; and \<open>a\<close>, a
  task other than \<open>b\<close> that no other level held, is in no slot of the queue any more.
\<close>

theorem sched_add_task_overwrites:
  assumes len: "length (run_queue st) = MAX_PRIO"
    and pa: "unat (prio (tcb st a)) = p" and pb: "unat (prio (tcb st b)) = p"
    and range: "p < MAX_PRIO"
  shows "\<exists>st1 st2. sched_add_task (Some a) st = Inr st1 \<and> sched_add_task (Some b) st1 = Inr st2
           \<and> run_queue st1 ! p = Some a \<and> (\<forall>i. i \<noteq> p \<longrightarrow> run_queue st1 ! i = run_queue st ! i)
           \<and> run_queue st2 ! p = Some b \<and> (\<forall>i. i \<noteq> p \<longrightarrow> run_queue st2 ! i = run_queue st ! i)
           \<and> length (run_queue st2) = MAX_PRIO
           \<and> (a \<noteq> b \<and> (\<forall>i<MAX_PRIO. i \<noteq> p \<longrightarrow> run_queue st ! i \<noteq> Some a)
                \<longrightarrow> Some a \<notin> set (run_queue st2))"
proof -
  define st1 where "st1 = st\<lparr>run_queue := (run_queue st)[p := Some a]\<rparr>"
  define st2 where "st2 = st1\<lparr>run_queue := (run_queue st1)[p := Some b]\<rparr>"
  have add1: "sched_add_task (Some a) st = Inr st1"
    using pa range by (simp add: sched_add_task_Some st1_def)
  have "unat (prio (tcb st1 b)) = p"
    using pb by (simp add: st1_def)
  then have add2: "sched_add_task (Some b) st1 = Inr st2"
    using range sched_add_task_Some [of st1 b] by (simp add: st2_def)
  have rq1: "run_queue st1 = (run_queue st)[p := Some a]"
    by (simp add: st1_def)
  have rq2: "run_queue st2 = (run_queue st)[p := Some b]"
    by (simp add: st1_def st2_def)
  have unreachable: "Some a \<notin> set (run_queue st2)"
    if "a \<noteq> b" and elsewhere: "\<forall>i<MAX_PRIO. i \<noteq> p \<longrightarrow> run_queue st ! i \<noteq> Some a"
  proof
    assume "Some a \<in> set (run_queue st2)"
    then obtain i where "i < MAX_PRIO" and "run_queue st2 ! i = Some a"
      using len by (auto simp: rq2 in_set_conv_nth)
    with that len range show False
      by (cases "i = p") (auto simp: rq2)
  qed
  from add1 add2 len range unreachable show ?thesis
    by (intro exI [of _ st1] exI [of _ st2]) (simp add: rq1 rq2)
qed

theorem sched_add_task_overwrites_witness:
  "sched_add_task (Some (TASK 5)) booted = Inr one_task
     \<and> sched_add_task (Some (TASK 105)) one_task = Inr replaced
     \<and> run_queue one_task ! 5 = Some (TASK 5)
     \<and> run_queue replaced ! 5 = Some (TASK 105)
     \<and> Some (TASK 5) \<notin> set (run_queue replaced)"
proof -
  have add1: "sched_add_task (Some (TASK 5)) booted = Inr one_task"
    by (simp add: sched_add_task_def booted_def one_task_def boot_def example_prio_simps MAX_PRIO_def)
  have add2: "sched_add_task (Some (TASK 105)) one_task = Inr replaced"
    by (simp add: sched_add_task_def booted_def one_task_def replaced_def boot_def
        example_prio_simps MAX_PRIO_def)
  have elsewhere: "\<forall>i<MAX_PRIO. i \<noteq> 5 \<longrightarrow> run_queue booted ! i \<noteq> Some (TASK 5)"
    by (simp add: example_queue_simps nth_list_update)
  obtain st1 st2 where "sched_add_task (Some (TASK 5)) booted = Inr st1"
    and "sched_add_task (Some (TASK 105)) st1 = Inr st2"
    and slots: "run_queue st1 ! 5 = Some (TASK 5)" "run_queue st2 ! 5 = Some (TASK 105)"
    and gone: "Some (TASK 5) \<notin> set (run_queue st2)"
    using sched_add_task_overwrites [of booted "TASK 5" 5 "TASK 105"] elsewhere
    by (auto simp: example_queue_length example_tcb_simps example_prio_simps MAX_PRIO_def)
  with add1 add2 have "st1 = one_task" and "st2 = replaced"
    by simp_all
  with add1 add2 slots gone show ?thesis
    by simp
qed

text \<open>
  C8. \<^verbatim>\<open>sched_remove_task\<close> empties \<^verbatim>\<open>run_queue[task->prio]\<close> whatever task the slot
  holds, and touches nothing else: removal goes by priority and not by identity.
  Afterwards \<^verbatim>\<open>sched_get_next_task\<close> does not return the removed task, and neither does it
  in any later state in which the slot of the task's priority is empty. (The task has a
  priority \<open>p < MAX_PRIO\<close>; for what the scan returns, the states are those the
  scheduler can reach, where a queued task sits in the slot of its own priority.)
\<close>

theorem sched_remove_task_by_priority:
  assumes len: "length (run_queue st) = MAX_PRIO"
    and p: "unat (prio (tcb st r)) = p" and range: "p < MAX_PRIO"
  shows "\<exists>st'. sched_remove_task (Some r) st = Inr st'
           \<and> run_queue st' ! p = None \<and> (\<forall>i. i \<noteq> p \<longrightarrow> run_queue st' ! i = run_queue st ! i)
           \<and> tcb st' = tcb st \<and> current_task st' = current_task st
           \<and> (queue_inv st \<longrightarrow> queue_inv st' \<and> sched_get_next_task st' \<noteq> Inr (Some r))
           \<and> (\<forall>st''. queue_inv st'' \<and> run_queue st'' ! unat (prio (tcb st'' r)) = None
                 \<longrightarrow> sched_get_next_task st'' \<noteq> Inr (Some r))"
proof -
  define st' where "st' = st\<lparr>run_queue := (run_queue st)[p := None]\<rparr>"
  have rem: "sched_remove_task (Some r) st = Inr st'"
    using p range by (simp add: sched_remove_task_Some st'_def)
  have rq: "run_queue st' = (run_queue st)[p := None]" and mem: "tcb st' = tcb st"
    and cur: "current_task st' = current_task st"
    by (simp_all add: st'_def)
  have empty: "run_queue st' ! p = None"
    using len range by (simp add: rq)
  have inv': "queue_inv st'" if inv: "queue_inv st"
    unfolding queue_inv_def
  proof (intro allI impI)
    fix i assume "i < MAX_PRIO"
    with inv show "case run_queue st' ! i of None \<Rightarrow> True | Some r \<Rightarrow> unat (prio (tcb st' r)) = i"
      using len by (cases "i = p") (auto simp: rq mem queue_inv_def split: option.splits)
  qed
  have slot: "run_queue st' ! unat (prio (tcb st' r)) = None"
    using empty p by (simp add: mem)
  have now: "queue_inv st \<longrightarrow> queue_inv st' \<and> sched_get_next_task st' \<noteq> Inr (Some r)"
    using inv' slot sched_get_next_task_not_removed [of st' r] by blast
  have later: "\<forall>st''. queue_inv st'' \<and> run_queue st'' ! unat (prio (tcb st'' r)) = None
                 \<longrightarrow> sched_get_next_task st'' \<noteq> Inr (Some r)"
    using sched_get_next_task_not_removed by blast
  have others: "\<forall>i. i \<noteq> p \<longrightarrow> run_queue st' ! i = run_queue st ! i"
    by (simp add: rq)
  show ?thesis
    by (intro exI [of _ st'] conjI) (rule rem empty others mem cur now later)+
qed

theorem sched_remove_task_by_priority_witness:
  "run_queue one_task ! 5 = Some (TASK 5)
     \<and> sched_remove_task (Some (TASK 105)) one_task = Inr booted
     \<and> run_queue booted ! 5 = None
     \<and> sched_get_next_task booted \<noteq> Inr (Some (TASK 105))
     \<and> sched_remove_task (Some (TASK 10)) two_tasks = Inr one_task
     \<and> sched_get_next_task one_task \<noteq> Inr (Some (TASK 10))"
proof -
  have "(replicate MAX_PRIO None)[0 := Some IDLE_TASK, 5 := None]
          = (replicate MAX_PRIO None)[0 := Some IDLE_TASK]"
    by (simp add: list_eq_iff_nth_eq nth_list_update MAX_PRIO_def)
  then have rem: "sched_remove_task (Some (TASK 105)) one_task = Inr booted"
    by (simp add: sched_remove_task_def booted_def one_task_def boot_def example_prio_simps
        MAX_PRIO_def)
  obtain st' where "sched_remove_task (Some (TASK 105)) one_task = Inr st'"
    and props: "run_queue st' ! 5 = None" "sched_get_next_task st' \<noteq> Inr (Some (TASK 105))"
    using sched_remove_task_by_priority [of one_task "TASK 105" 5]
    by (auto simp: example_queue_length example_queue_inv example_tcb_simps example_prio_simps
        MAX_PRIO_def)
  with rem have first: "st' = booted"
    by simp
  have "(replicate MAX_PRIO None)[0 := Some IDLE_TASK, 5 := Some (TASK 5), 10 := None]
          = (replicate MAX_PRIO None)[0 := Some IDLE_TASK, 5 := Some (TASK 5)]"
    by (simp add: list_eq_iff_nth_eq nth_list_update MAX_PRIO_def)
  then have rem2: "sched_remove_task (Some (TASK 10)) two_tasks = Inr one_task"
    by (simp add: sched_remove_task_def booted_def one_task_def two_tasks_def boot_def
        example_prio_simps MAX_PRIO_def)
  obtain st2 where "sched_remove_task (Some (TASK 10)) two_tasks = Inr st2"
    and props2: "sched_get_next_task st2 \<noteq> Inr (Some (TASK 10))"
    using sched_remove_task_by_priority [of two_tasks "TASK 10" 10]
    by (auto simp: example_queue_length example_queue_inv example_tcb_simps example_prio_simps
        MAX_PRIO_def)
  with rem2 have second: "st2 = one_task"
    by simp
  from rem props first rem2 props2 second show ?thesis
    by (simp add: example_queue_simps MAX_PRIO_def)
qed

subsection \<open>Initialising and running\<close>

text \<open>
  C9. \<^verbatim>\<open>sched_init\<close> sets the current-task pointer to the idle task and installs the
  idle task in slot 0 of the run queue, leaving every other slot as it was: called again
  after tasks have been added it resets the current task and slot 0 and clears nothing.
  After an init over a queue whose other slots are empty, as they are at the first init,
  \<^verbatim>\<open>sched_get_next_task\<close> returns the idle task. (The idle task has the priority
  \<^verbatim>\<open>IDLE_PRIO\<close> of its initialiser.)
\<close>

theorem sched_init_idle:
  assumes len: "length (run_queue st) = MAX_PRIO"
    and idle: "prio (tcb st IDLE_TASK) = IDLE_PRIO"
  shows "\<exists>st'. sched_init st = Inr st'
           \<and> current_task st' = Some IDLE_TASK \<and> run_queue st' ! 0 = Some IDLE_TASK
           \<and> (\<forall>i. i \<noteq> 0 \<longrightarrow> run_queue st' ! i = run_queue st ! i)
           \<and> length (run_queue st') = MAX_PRIO \<and> tcb st' = tcb st
           \<and> ((\<forall>k. 0 < k \<and> k < MAX_PRIO \<longrightarrow> run_queue st ! k = None)
                 \<longrightarrow> sched_get_next_task st' = Inr (Some IDLE_TASK))"
proof -
  define st' where
    "st' = st\<lparr>current_task := Some IDLE_TASK, run_queue := (run_queue st)[0 := Some IDLE_TASK]\<rparr>"
  have init: "sched_init st = Inr st'"
    using idle by (simp add: sched_init_def sched_add_task_def IDLE_PRIO_def MAX_PRIO_def st'_def)
  have rq: "run_queue st' = (run_queue st)[0 := Some IDLE_TASK]"
    by (simp add: st'_def)
  have slot0: "run_queue st' ! 0 = Some IDLE_TASK"
    using len by (simp add: rq MAX_PRIO_def)
  have first: "sched_get_next_task st' = Inr (Some IDLE_TASK)"
    if "\<forall>k. 0 < k \<and> k < MAX_PRIO \<longrightarrow> run_queue st ! k = None"
  proof -
    from that have "\<forall>k. 0 < k \<and> k < MAX_PRIO \<longrightarrow> run_queue st' ! k = None"
      by (simp add: rq)
    with slot0 show ?thesis
      using sched_get_next_task_first [of 0 st'] by (simp add: MAX_PRIO_def)
  qed
  from init slot0 first len show ?thesis
    by (intro exI [of _ st']) (simp add: rq st'_def)
qed

theorem sched_init_idle_witness:
  "sched_init boot = Inr booted \<and> sched_get_next_task booted = Inr (Some IDLE_TASK)
     \<and> current_task two_tasks_running = Some (TASK 10)
     \<and> sched_init two_tasks_running = Inr two_tasks
     \<and> current_task two_tasks = Some IDLE_TASK
     \<and> run_queue two_tasks ! 0 = Some IDLE_TASK
     \<and> run_queue two_tasks ! 5 = Some (TASK 5) \<and> run_queue two_tasks ! 10 = Some (TASK 10)"
proof -
  have first: "sched_init boot = Inr booted"
    by (simp add: sched_init_def sched_add_task_def boot_def booted_def example_prio_simps
        IDLE_PRIO_def MAX_PRIO_def)
  have "(replicate MAX_PRIO None)[0 := Some IDLE_TASK, 5 := Some (TASK 5), 10 := Some (TASK 10),
            0 := Some IDLE_TASK]
          = (replicate MAX_PRIO None)[0 := Some IDLE_TASK, 5 := Some (TASK 5), 10 := Some (TASK 10)]"
    by (simp add: list_eq_iff_nth_eq nth_list_update MAX_PRIO_def)
  then have again: "sched_init two_tasks_running = Inr two_tasks"
    by (simp add: sched_init_def sched_add_task_def boot_def booted_def two_tasks_def
        two_tasks_running_def example_prio_simps IDLE_PRIO_def MAX_PRIO_def)
  obtain st' where "sched_init boot = Inr st'"
    and next_idle: "sched_get_next_task st' = Inr (Some IDLE_TASK)"
    using sched_init_idle [of boot]
    by (auto simp: example_queue_length example_tcb_simps example_prio_simps example_queue_simps)
  with first have "st' = booted"
    by simp
  obtain st2 where "sched_init two_tasks_running = Inr st2"
    and kept: "current_task st2 = Some IDLE_TASK" "run_queue st2 ! 0 = Some IDLE_TASK"
      "run_queue st2 ! 5 = run_queue two_tasks_running ! 5"
      "run_queue st2 ! 10 = run_queue two_tasks_running ! 10"
    using sched_init_idle [of two_tasks_running]
    by (auto simp: example_queue_length example_tcb_simps example_prio_simps)
  with again have "st2 = two_tasks"
    by simp
  with first again next_idle kept \<open>st' = booted\<close> show ?thesis
    by (simp add: example_queue_simps example_current_simps MAX_PRIO_def)
qed

text \<open>
  C4, as amended. When the current-task pointer is not \<^verbatim>\<open>NULL\<close> and
  \<^verbatim>\<open>sched_get_next_task\<close> returns a task, then after \<^verbatim>\<open>sched_run\<close> the current-task
  pointer is that task and its state is \<^verbatim>\<open>RUNNING\<close>; the state of every other task is what
  it was before the call, and so is the state of the previously current task whenever
  it is not the task selected.
\<close>

theorem sched_run_switches:
  assumes cur: "current_task st = Some p" and nxt: "sched_get_next_task st = Inr (Some n)"
  shows "\<exists>st'. sched_run st = Inr st'
           \<and> current_task st' = Some n \<and> state (tcb st' n) = RUNNING
           \<and> (p \<noteq> n \<longrightarrow> state (tcb st' p) = state (tcb st p))
           \<and> (\<forall>r. r \<noteq> n \<longrightarrow> state (tcb st' r) = state (tcb st r))
           \<and> run_queue st' = run_queue st"
  using sched_run_Some [OF cur nxt] by (simp add: switch_to_fields)

theorem sched_run_switches_witness:
  "current_task two_tasks = Some IDLE_TASK
     \<and> sched_get_next_task two_tasks = Inr (Some (TASK 10))
     \<and> current_task_in (sched_run two_tasks) = Some (TASK 10)
     \<and> task_state_in (sched_run two_tasks) (TASK 10) = Some RUNNING
     \<and> state (tcb two_tasks IDLE_TASK) = READY
     \<and> task_state_in (sched_run two_tasks) IDLE_TASK = Some READY"
proof -
  have cur: "current_task two_tasks = Some IDLE_TASK"
    by (simp add: example_current_simps)
  have "sched_get_next_task two_tasks = Inr (run_queue two_tasks ! 10)"
    by (rule sched_get_next_task_first) (simp_all add: example_queue_simps MAX_PRIO_def)
  then have nxt: "sched_get_next_task two_tasks = Inr (Some (TASK 10))"
    by (simp add: example_queue_simps MAX_PRIO_def)
  from sched_run_switches [OF cur nxt] cur nxt show ?thesis
    by (auto simp: current_task_in_def task_state_in_def example_tcb_simps example_prio_simps)
qed

text \<open>
  C4 as it is written fails when the task selected is the current task itself: right
  after \<^verbatim>\<open>sched_init\<close> the idle task is current and \<^verbatim>\<open>READY\<close>, \<^verbatim>\<open>sched_get_next_task\<close>
  selects it, and \<^verbatim>\<open>sched_run\<close> writes \<^verbatim>\<open>RUNNING\<close> into the state of the previously
  current task.
\<close>

theorem sched_run_switches_counterexample:
  "sched_get_current_task booted = Some IDLE_TASK
     \<and> sched_get_next_task booted = Inr (Some IDLE_TASK)
     \<and> state (tcb booted IDLE_TASK) = READY
     \<and> current_task_in (sched_run booted) = Some IDLE_TASK
     \<and> task_state_in (sched_run booted) IDLE_TASK = Some RUNNING
     \<and> task_state_in (sched_run booted) IDLE_TASK \<noteq> Some (state (tcb booted IDLE_TASK))"
proof -
  have cur: "current_task booted = Some IDLE_TASK"
    by (simp add: example_current_simps)
  have "sched_get_next_task booted = Inr (run_queue booted ! 0)"
    by (rule sched_get_next_task_first) (simp_all add: example_queue_simps MAX_PRIO_def)
  then have nxt: "sched_get_next_task booted = Inr (Some IDLE_TASK)"
    by (simp add: example_queue_simps MAX_PRIO_def)
  from sched_run_Some [OF cur nxt] cur nxt show ?thesis
    by (simp add: task_state_in_def current_task_in_def switch_to_fields
        sched_get_current_task_def example_tcb_simps example_prio_simps)
qed

section \<open>The claims about task creation\<close>

lemma task_create_result:
  "task_create STACK_SIZE task fn stack =
     (AX_OK, task\<lparr>task_id := \<lparr>vms_id = 0, thread_id = 0\<rparr>,
        thread := (thread task)\<lparr>ra := fn, sp := stack + STACK_SIZE - 1,
          s := (s (thread task))[0 := 0, 1 := 0, 2 := 0, 3 := 0, 4 := 0, 5 := 0, 6 := 0, 7 := 0,
            8 := 0, 9 := 0, 10 := 0, 11 := 0]\<rparr>\<rparr>)"
  by (simp add: task_create_def)

lemma twelve_zeroed:
  fixes xs :: "u64 list"
  assumes "length xs = 12"
  shows "xs[0 := 0, 1 := 0, 2 := 0, 3 := 0, 4 := 0, 5 := 0, 6 := 0, 7 := 0, 8 := 0, 9 := 0,
            10 := 0, 11 := 0] = replicate 12 0"
proof (rule nth_equalityI)
  show "length (xs[0 := 0, 1 := 0, 2 := 0, 3 := 0, 4 := 0, 5 := 0, 6 := 0, 7 := 0, 8 := 0, 9 := 0,
            10 := 0, 11 := 0]) = length (replicate 12 (0::u64))"
    using assms by simp
next
  fix i
  assume "i < length (xs[0 := 0, 1 := 0, 2 := 0, 3 := 0, 4 := 0, 5 := 0, 6 := 0, 7 := 0, 8 := 0,
            9 := 0, 10 := 0, 11 := 0])"
  with assms have "i < 12" by simp
  then have "i \<in> {0, 1, 2, 3, 4, 5, 6, 7, 8, 9, 10, 11}"
    by (simp add: numeral_eq_Suc less_Suc_eq)
  with assms show "xs[0 := 0, 1 := 0, 2 := 0, 3 := 0, 4 := 0, 5 := 0, 6 := 0, 7 := 0, 8 := 0,
            9 := 0, 10 := 0, 11 := 0] ! i = replicate 12 0 ! i"
    by auto
qed

lemma odd_word_pred:
  fixes w :: u64
  shows "even (unat w) \<Longrightarrow> odd (unat (w - 1))"
  by (simp add: unat_sub_if')

text \<open>
  C3. The claim asks of \<^verbatim>\<open>task_create\<close> a failure code for a priority outside the levels
  0 to \<open>MAX_PRIO - 1\<close>, and on success a task in state \<^verbatim>\<open>READY\<close> with the priority given.
  The prototype in task.h has five parameters, the last a \<^verbatim>\<open>uint8_t\<close>, and the comment
  over the definition promises a task that is initialised and scheduled and a failure
  code when the initialisation fails. The definition in task.c has three parameters
  and does none of it. Run on a control block that was in use, blocked and holding the
  priority 255, it returns the success code and a control block whose identity, return
  address, stack pointer and registers are set and whose state is still \<^verbatim>\<open>BLOCKED\<close>, with
  the priority 255 that no level of the run queue has. No call returns the failure
  code.
\<close>

theorem task_create_stale_task:
  "task_create 4096 stale_task 0x80000400 0x80010000 =
     (AX_OK, \<lparr>task_id = \<lparr>vms_id = 0, thread_id = 0\<rparr>, prio = 255, state = BLOCKED,
              thread = \<lparr>ra = 0x80000400, sp = 0x80010FFF, s = replicate 12 0\<rparr>\<rparr>)
   \<and> state (snd (task_create 4096 stale_task 0x80000400 0x80010000)) \<noteq> READY
   \<and> \<not> unat (prio (snd (task_create 4096 stale_task 0x80000400 0x80010000))) < MAX_PRIO
   \<and> (\<forall>STACK_SIZE task fn stack. fst (task_create STACK_SIZE task fn stack) \<noteq> AX_FAILURE)"
proof -
  have "length (s (thread stale_task)) = 12"
    by (simp add: stale_task_def)
  from twelve_zeroed [OF this]
  have run: "task_create 4096 stale_task 0x80000400 0x80010000 =
     (AX_OK, \<lparr>task_id = \<lparr>vms_id = 0, thread_id = 0\<rparr>, prio = 255, state = BLOCKED,
              thread = \<lparr>ra = 0x80000400, sp = 0x80010FFF, s = replicate 12 0\<rparr>\<rparr>)"
    by (simp add: task_create_result stale_task_def)
  have never: "\<forall>STACK_SIZE task fn stack. fst (task_create STACK_SIZE task fn stack) \<noteq> AX_FAILURE"
    by (simp add: task_create_result)
  from never show ?thesis
    unfolding run by (simp add: MAX_PRIO_def)
qed

text \<open>
  C10. Every call \<^verbatim>\<open>task_create(task, fn, stack)\<close> returns the success code, sets
  \<^verbatim>\<open>task->thread.ra\<close> to \<open>fn\<close> and \<^verbatim>\<open>task->thread.sp\<close> to the base address of the stack plus
  \<^verbatim>\<open>STACK_SIZE - 1\<close> bytes, zeroes the twelve saved callee registers, sets both identity
  fields to 0 and leaves the state and the priority of the task as they were. The byte
  offset \<^verbatim>\<open>STACK_SIZE - 1\<close> lies within the \<^verbatim>\<open>STACK_SIZE\<close> words of the block and is odd
  for an even \<^verbatim>\<open>STACK_SIZE\<close>, and then the stack pointer over an even base address is odd
  too, so not 16-byte aligned.
\<close>

theorem task_create_effect:
  assumes "length (s (thread task)) = 12"
  shows "fst (task_create STACK_SIZE task fn stack) = AX_OK
     \<and> ra (thread (snd (task_create STACK_SIZE task fn stack))) = fn
     \<and> sp (thread (snd (task_create STACK_SIZE task fn stack))) = stack + STACK_SIZE - 1
     \<and> sp (thread (snd (task_create STACK_SIZE task fn stack))) - stack = STACK_SIZE - 1
     \<and> s (thread (snd (task_create STACK_SIZE task fn stack))) = replicate 12 0
     \<and> vms_id (task_id (snd (task_create STACK_SIZE task fn stack))) = 0
     \<and> thread_id (task_id (snd (task_create STACK_SIZE task fn stack))) = 0
     \<and> state (snd (task_create STACK_SIZE task fn stack)) = state task
     \<and> prio (snd (task_create STACK_SIZE task fn stack)) = prio task
     \<and> (0 < unat STACK_SIZE \<longrightarrow> unat (STACK_SIZE - 1) < 8 * unat STACK_SIZE)
     \<and> (even (unat STACK_SIZE) \<longrightarrow> odd (unat (STACK_SIZE - 1)))
     \<and> (even (unat STACK_SIZE) \<and> even (unat stack)
          \<longrightarrow> unat (sp (thread (snd (task_create STACK_SIZE task fn stack)))) mod 16 \<noteq> 0)"
proof -
  have aligned: "unat (stack + STACK_SIZE - 1) mod 16 \<noteq> 0"
    if "even (unat STACK_SIZE)" and "even (unat stack)"
  proof -
    from that have "even (unat (stack + STACK_SIZE))"
      by (simp add: unat_plus_if')
    then have "odd (unat (stack + STACK_SIZE - 1))"
      by (rule odd_word_pred)
    then show ?thesis
      by presburger
  qed
  have zeroed: "s (thread (snd (task_create STACK_SIZE task fn stack))) = replicate 12 0"
    using twelve_zeroed [OF assms] by (simp add: task_create_result)
  have inside: "unat (STACK_SIZE - 1) < 8 * unat STACK_SIZE" if "0 < unat STACK_SIZE"
    using that by (simp add: unat_sub_if')
  from zeroed aligned inside show ?thesis
    by (simp add: task_create_result odd_word_pred)
qed

theorem task_create_effect_witness:
  "length (s (thread stale_task)) = 12
     \<and> task_create 4096 stale_task 0x80000400 0x80010000 =
         (AX_OK, \<lparr>task_id = \<lparr>vms_id = 0, thread_id = 0\<rparr>, prio = 255, state = BLOCKED,
                  thread = \<lparr>ra = 0x80000400, sp = 0x80010FFF, s = replicate 12 0\<rparr>\<rparr>)
     \<and> unat (0x80010FFF :: u64) mod 16 = 15"
proof -
  have len: "length (s (thread stale_task)) = 12"
    by (simp add: stale_task_def)
  have rest: "task_create 4096 stale_task 0x80000400 0x80010000 =
      (AX_OK, stale_task\<lparr>task_id := \<lparr>vms_id = 0, thread_id = 0\<rparr>,
         thread := (thread stale_task)\<lparr>ra := 0x80000400, sp := 0x80010FFF,
           s := s (thread (snd (task_create 4096 stale_task 0x80000400 0x80010000)))\<rparr>\<rparr>)"
    by (simp add: task_create_result)
  from task_create_effect [OF len, of 4096 "0x80000400" "0x80010000"]
  have "s (thread (snd (task_create 4096 stale_task 0x80000400 0x80010000))) = replicate 12 0"
    by simp
  with rest len show ?thesis
    by (simp add: stale_task_def)
qed

section \<open>Properties of the stack frame builder\<close>

lemma unat_add_nat:
  fixes a b :: u64
  shows "unat a + unat b < 2 ^ 64 \<Longrightarrow> unat (a + b) = unat a + unat b"
  using unat_add_lem [of a b] by simp

lemma unat_sub_nat:
  fixes a b :: u64
  shows "unat b \<le> unat a \<Longrightarrow> unat (a - b) = unat a - unat b"
  by (simp add: unat_sub word_le_nat_alt)

lemma unat_neq:
  fixes a b :: u64
  shows "unat a \<noteq> unat b \<Longrightarrow> a \<noteq> b"
  by auto

lemma sp_assign_Some:
  "unat sp_field mod 8 = 0 \<Longrightarrow> sp_assign sp_field x m = Some (m(sp_field := x))"
  by (simp add: sp_assign_def store64_def)

lemma sp_sub_Some:
  "unat sp_field mod 8 = 0 \<Longrightarrow> sp_sub sp_field n m = Some (m(sp_field := m sp_field - n))"
  by (simp add: sp_sub_def load64_def store64_def)

lemma sp_store_Some:
  "unat sp_field mod 8 = 0 \<Longrightarrow> unat (m sp_field + off) mod 8 = 0
     \<Longrightarrow> sp_store sp_field off x m = Some (m(m sp_field + off := x))"
  by (simp add: sp_store_def load64_def store64_def)

lemma aligned_sum:
  fixes a b :: nat
  shows "a mod 8 = 0 \<Longrightarrow> b mod 8 = 0 \<Longrightarrow> (a + b) mod 8 = 0"
  by presburger

lemma aligned_diff:
  fixes a b :: nat
  shows "a mod 8 = 0 \<Longrightarrow> b mod 8 = 0 \<Longrightarrow> (a - b) mod 8 = 0"
  by presburger

lemma store_regs_frame:
  assumes al: "unat sp_field mod 8 = 0" and sp: "m sp_field = v" and alv: "unat v mod 8 = 0"
    and regs: "\<forall>r \<in> set regs. unat (fst r) mod 8 = 0 \<and> unat (fst r) + 8 \<le> len"
    and top: "unat v + len < 2 ^ 64"
    and away: "unat sp_field < unat v \<or> unat v + len \<le> unat sp_field"
  shows "\<exists>m'. store_regs sp_field regs m = Some m' \<and> m' sp_field = v
           \<and> (\<forall>a. a \<notin> (\<lambda>r. v + fst r) ` set regs \<longrightarrow> m' a = m a)
           \<and> (\<forall>off x. (off, x) \<in> set regs \<and> (\<forall>x'. (off, x') \<in> set regs \<longrightarrow> x' = x)
                 \<longrightarrow> m' (v + off) = x)"
  using sp regs
proof (induction regs arbitrary: m)
  case Nil
  then show ?case by simp
next
  case (Cons r regs)
  obtain off0 x0 where r: "r = (off0, x0)"
    by (cases r)
  from Cons.prems(2) r have off0: "unat off0 mod 8 = 0" "unat off0 + 8 \<le> len"
    by simp_all
  from off0(2) top have "unat v + unat off0 < 2 ^ 64"
    by simp
  then have u: "unat (v + off0) = unat v + unat off0"
    by (rule unat_add_nat)
  from alv off0(1) have "(unat v + unat off0) mod 8 = 0"
    by (rule aligned_sum)
  with u Cons.prems(1) have al0: "unat (m sp_field + off0) mod 8 = 0"
    by simp
  from u off0(2) away have "unat (v + off0) \<noteq> unat sp_field"
    by linarith
  then have ne: "v + off0 \<noteq> sp_field"
    by (rule unat_neq)
  define m1 where "m1 = m(v + off0 := x0)"
  from al al0 Cons.prems(1) have step: "sp_store sp_field off0 x0 m = Some m1"
    by (simp add: sp_store_Some m1_def)
  from ne Cons.prems(1) have sp1: "m1 sp_field = v"
    by (simp add: m1_def)
  from Cons.prems(2) have rest: "\<forall>r \<in> set regs. unat (fst r) mod 8 = 0 \<and> unat (fst r) + 8 \<le> len"
    by simp
  from Cons.IH [of m1, OF sp1 rest] obtain m' where m':
    "store_regs sp_field regs m1 = Some m'" "m' sp_field = v"
    "\<forall>a. a \<notin> (\<lambda>r. v + fst r) ` set regs \<longrightarrow> m' a = m1 a"
    "\<forall>off x. (off, x) \<in> set regs \<and> (\<forall>x'. (off, x') \<in> set regs \<longrightarrow> x' = x) \<longrightarrow> m' (v + off) = x"
    by blast
  have run: "store_regs sp_field (r # regs) m = Some m'"
    using step m'(1) by (simp add: r)
  have untouched: "m' a = m a" if "a \<notin> (\<lambda>r. v + fst r) ` set (r # regs)" for a
  proof -
    from that have "a \<noteq> v + off0" and "a \<notin> (\<lambda>r. v + fst r) ` set regs"
      by (simp_all add: r)
    with m'(3) show ?thesis
      by (simp add: m1_def)
  qed
  have written: "m' (v + off) = x"
    if mem: "(off, x) \<in> set (r # regs)" and uniq: "\<forall>x'. (off, x') \<in> set (r # regs) \<longrightarrow> x' = x"
    for off x
  proof (cases "(off, x) \<in> set regs")
    case True
    moreover from uniq have "\<forall>x'. (off, x') \<in> set regs \<longrightarrow> x' = x"
      by simp
    ultimately show ?thesis
      using m'(4) by blast
  next
    case False
    with mem have here: "off = off0" "x = x0"
      by (simp_all add: r)
    have "v + off \<notin> (\<lambda>r. v + fst r) ` set regs"
    proof
      assume "v + off \<in> (\<lambda>r. v + fst r) ` set regs"
      then obtain r' where r': "r' \<in> set regs" "v + off = v + fst r'"
        by blast
      then have "(off, snd r') \<in> set regs"
        by simp
      with uniq have "snd r' = x"
        by simp
      with \<open>(off, snd r') \<in> set regs\<close> False show False
        by simp
    qed
    with m'(3) have "m' (v + off) = m1 (v + off)"
      by blast
    with here show ?thesis
      by (simp add: m1_def)
  qed
  from run m'(2) untouched written show ?case
    by blast
qed

lemma push_frame_region:
  assumes al: "unat sp_field mod 8 = 0" and sp: "m sp_field = v" and alv: "unat v mod 8 = 0"
    and aln: "unat n mod 8 = 0"
    and regs: "\<forall>r \<in> set regs. unat (fst r) mod 8 = 0 \<and> unat (fst r) + 8 \<le> unat n"
    and room: "unat sp_field + 8 + unat n \<le> unat v"
  shows "\<exists>m'. push_frame sp_field n regs m = Some m' \<and> m' sp_field = v - n
           \<and> unat (v - n) = unat v - unat n \<and> unat (v - n) mod 8 = 0
           \<and> (\<forall>a. a \<noteq> sp_field \<and> (unat a < unat v - unat n \<or> unat v \<le> unat a) \<longrightarrow> m' a = m a)
           \<and> (\<forall>off x. (off, x) \<in> set regs \<and> (\<forall>x'. (off, x') \<in> set regs \<longrightarrow> x' = x)
                 \<longrightarrow> m' (v - n + off) = x)"
proof -
  define m1 where "m1 = m(sp_field := v - n)"
  from room have "unat n \<le> unat v"
    by simp
  then have u: "unat (v - n) = unat v - unat n"
    by (rule unat_sub_nat)
  from al sp have sub: "sp_sub sp_field n m = Some m1"
    by (simp add: sp_sub_Some m1_def)
  have sp1: "m1 sp_field = v - n"
    by (simp add: m1_def)
  from alv aln have "(unat v - unat n) mod 8 = 0"
    by (rule aligned_diff)
  with u have alv': "unat (v - n) mod 8 = 0"
    by simp
  have "unat v < 2 ^ 64"
    using unsigned_less [of v] by simp
  with u room have top: "unat (v - n) + unat n < 2 ^ 64"
    by simp
  from u room have below: "unat sp_field < unat (v - n) \<or> unat (v - n) + unat n \<le> unat sp_field"
    by simp
  from store_regs_frame [where m = m1 and v = "v - n" and len = "unat n", OF al sp1 alv' regs top below] obtain m' where m':
    "store_regs sp_field regs m1 = Some m'" "m' sp_field = v - n"
    "\<forall>a. a \<notin> (\<lambda>r. v - n + fst r) ` set regs \<longrightarrow> m' a = m1 a"
    "\<forall>off x. (off, x) \<in> set regs \<and> (\<forall>x'. (off, x') \<in> set regs \<longrightarrow> x' = x)
       \<longrightarrow> m' (v - n + off) = x"
    by blast
  have run: "push_frame sp_field n regs m = Some m'"
    using sub m'(1) by (simp add: push_frame_def)
  have outside: "m' a = m a"
    if nsp: "a \<noteq> sp_field" and far: "unat a < unat v - unat n \<or> unat v \<le> unat a" for a
  proof -
    have "a \<noteq> v - n + fst r" if "r \<in> set regs" for r
    proof -
      from that regs have slot: "unat (fst r) + 8 \<le> unat n"
        by simp
      with top have "unat (v - n) + unat (fst r) < 2 ^ 64"
        by simp
      then have "unat (v - n + fst r) = unat (v - n) + unat (fst r)"
        by (rule unat_add_nat)
      with u far slot room have "unat a \<noteq> unat (v - n + fst r)"
        by linarith
      then show ?thesis
        by (rule unat_neq)
    qed
    then have "a \<notin> (\<lambda>r. v - n + fst r) ` set regs"
      by blast
    with m'(3) nsp show ?thesis
      by (simp add: m1_def)
  qed
  from outside have outside':
    "\<forall>a. a \<noteq> sp_field \<and> (unat a < unat v - unat n \<or> unat v \<le> unat a) \<longrightarrow> m' a = m a"
    by simp
  show ?thesis
    by (intro exI [of _ m'] conjI) (rule run m'(2) u alv' outside' m'(4))+
qed

lemma store_regs_unfold:
  "store_regs sp_field [] = Some"
  "store_regs sp_field ((off, x) # rest) = (\<lambda>m. sp_store sp_field off x m \<bind> store_regs sp_field rest)"
  by (rule ext, simp)+

lemma task_stack_init_frames:
  "task_stack_init k task_runtime ret_from_interrupt stack stack_size task_entry m =
     do {
       m \<leftarrow> sp_assign (stack + THREAD_SP k) (stack + stack_size - LWORD_SIZE k) m;
       m \<leftarrow> push_frame (stack + THREAD_SP k) (KERNEL_STACK_FRAME_LENGTH k)
              (kernel_regs k task_runtime) m;
       m \<leftarrow> push_frame (stack + THREAD_SP k) (CALLER_STACK_FRAME_LENGTH k)
              (caller_regs k task_entry) m;
       m \<leftarrow> push_frame (stack + THREAD_SP k) (LWORD_SIZE k)
              [(DWORD_SIZE k, ret_from_interrupt)] m;
       push_frame (stack + THREAD_SP k) (CALLEE_STACK_FRAME_LENGTH k) (callee_regs k) m
     }"
  by (simp add: task_stack_init_def push_frame_def kernel_regs_def caller_regs_def
      callee_regs_def Let_def store_regs_unfold)

lemma aligned_layout_sizes:
  assumes "aligned_layout k"
  shows "unat (LWORD_SIZE k) mod 8 = 0" "unat (KERNEL_STACK_FRAME_LENGTH k) mod 8 = 0"
    "unat (CALLER_STACK_FRAME_LENGTH k) mod 8 = 0" "unat (CALLEE_STACK_FRAME_LENGTH k) mod 8 = 0"
    "unat (THREAD_SP k) mod 8 = 0"
  using assms by (simp_all add: aligned_layout_def)

lemma aligned_layout_kernel:
  assumes "aligned_layout k"
  shows "\<forall>r \<in> set (kernel_regs k x). unat (fst r) mod 8 = 0
           \<and> unat (fst r) + 8 \<le> unat (KERNEL_STACK_FRAME_LENGTH k)"
  using assms by (simp add: aligned_layout_def kernel_regs_def kernel_slots_def)

lemma aligned_layout_caller:
  assumes "aligned_layout k"
  shows "\<forall>r \<in> set (caller_regs k x). unat (fst r) mod 8 = 0
           \<and> unat (fst r) + 8 \<le> unat (CALLER_STACK_FRAME_LENGTH k)"
  using assms by (simp add: aligned_layout_def caller_regs_def caller_zero_slots_def)

lemma aligned_layout_trampoline:
  assumes "aligned_layout k"
  shows "\<forall>r \<in> set [(DWORD_SIZE k, x)]. unat (fst r) mod 8 = 0
           \<and> unat (fst r) + 8 \<le> unat (LWORD_SIZE k)"
  using assms by (simp add: aligned_layout_def)

lemma aligned_layout_callee:
  assumes "aligned_layout k"
  shows "\<forall>r \<in> set (callee_regs k). unat (fst r) mod 8 = 0
           \<and> unat (fst r) + 8 \<le> unat (CALLEE_STACK_FRAME_LENGTH k)"
  using assms by (simp add: aligned_layout_def callee_regs_def callee_slots_def)

lemma kernel_regs_values:
  assumes "distinct_slots k"
  shows "(KERNEL_STACK_FRAME_MEPC k, x) \<in> set (kernel_regs k x)
           \<and> (\<forall>x'. (KERNEL_STACK_FRAME_MEPC k, x') \<in> set (kernel_regs k x) \<longrightarrow> x' = x)"
    and "(KERNEL_STACK_FRAME_RA k, 0) \<in> set (kernel_regs k x)
           \<and> (\<forall>x'. (KERNEL_STACK_FRAME_RA k, x') \<in> set (kernel_regs k x) \<longrightarrow> x' = 0)"
  using assms by (auto simp: distinct_slots_def kernel_regs_def)

lemma caller_regs_a0:
  assumes "distinct_slots k"
  shows "(CALLER_STACK_FRAME_A0 k, x) \<in> set (caller_regs k x)
           \<and> (\<forall>x'. (CALLER_STACK_FRAME_A0 k, x') \<in> set (caller_regs k x) \<longrightarrow> x' = x)"
  using assms by (auto simp: distinct_slots_def caller_regs_def caller_zero_slots_def)

lemma caller_regs_zero:
  assumes "distinct_slots k" and "off \<in> set (caller_zero_slots k)"
  shows "(off, 0) \<in> set (caller_regs k x)
           \<and> (\<forall>x'. (off, x') \<in> set (caller_regs k x) \<longrightarrow> x' = 0)"
proof -
  from assms have "off \<noteq> CALLER_STACK_FRAME_A0 k"
    by (auto simp: distinct_slots_def)
  with assms(2) show ?thesis
    by (auto simp: caller_regs_def caller_zero_slots_def)
qed

lemma callee_regs_zero:
  assumes "off \<in> set (callee_slots k)"
  shows "(off, 0) \<in> set (callee_regs k)
           \<and> (\<forall>x'. (off, x') \<in> set (callee_regs k) \<longrightarrow> x' = 0)"
  using assms by (auto simp: callee_regs_def callee_slots_def)

lemma slot_bounds:
  assumes "aligned_layout k"
  shows "off \<in> set (kernel_slots k) \<Longrightarrow> unat off + 8 \<le> unat (KERNEL_STACK_FRAME_LENGTH k)"
    and "off \<in> set (caller_zero_slots k) \<Longrightarrow> unat off + 8 \<le> unat (CALLER_STACK_FRAME_LENGTH k)"
    and "unat (CALLER_STACK_FRAME_A0 k) + 8 \<le> unat (CALLER_STACK_FRAME_LENGTH k)"
    and "unat (DWORD_SIZE k) + 8 \<le> unat (LWORD_SIZE k)"
    and "off \<in> set (callee_slots k) \<Longrightarrow> unat off + 8 \<le> unat (CALLEE_STACK_FRAME_LENGTH k)"
  using assms by (simp_all add: aligned_layout_def)

lemma task_stack_init_image:
  assumes wf: "aligned_layout k" and fits: "stack_fits k stack stack_size"
  shows "\<exists>m'. task_stack_init k task_runtime ret_from_interrupt stack stack_size task_entry m = Some m'
          \<and> m' (stack + THREAD_SP k) = callee_frame_sp k stack stack_size
          \<and> unat (callee_frame_sp k stack stack_size)
               = unat stack + unat stack_size - frames_size k
          \<and> (\<forall>off \<in> set (callee_slots k). m' (callee_frame_sp k stack stack_size + off) = 0)
          \<and> (distinct_slots k \<longrightarrow>
                m' (kernel_frame_sp k stack stack_size + KERNEL_STACK_FRAME_MEPC k) = task_runtime
              \<and> m' (kernel_frame_sp k stack stack_size + KERNEL_STACK_FRAME_RA k) = 0
              \<and> m' (caller_frame_sp k stack stack_size + CALLER_STACK_FRAME_A0 k) = task_entry
              \<and> (\<forall>off \<in> set (caller_zero_slots k).
                    m' (caller_frame_sp k stack stack_size + off) = 0))"
proof -
  define spf where "spf = stack + THREAD_SP k"
  define top where "top = stack + stack_size - LWORD_SIZE k"
  define ksp where "ksp = top - KERNEL_STACK_FRAME_LENGTH k"
  define csp where "csp = ksp - CALLER_STACK_FRAME_LENGTH k"
  define rsp where "rsp = csp - LWORD_SIZE k"
  define fsp where "fsp = rsp - CALLEE_STACK_FRAME_LENGTH k"
  define B S T where "B = unat stack" and "S = unat stack_size" and "T = unat (THREAD_SP k)"
  define l kl cl el where "l = unat (LWORD_SIZE k)" and "kl = unat (KERNEL_STACK_FRAME_LENGTH k)"
    and "cl = unat (CALLER_STACK_FRAME_LENGTH k)" and "el = unat (CALLEE_STACK_FRAME_LENGTH k)"
  note nat_defs = B_def S_def T_def l_def kl_def cl_def el_def
  from fits have room: "T + 8 + (l + kl + cl + l + el) \<le> S" and nowrap: "B + S < 2 ^ 64"
    and alB: "B mod 8 = 0" and alS: "S mod 8 = 0"
    by (simp_all add: stack_fits_def frames_size_def nat_defs)
  note al = aligned_layout_sizes [OF wf, folded nat_defs]
  have ksp_eq: "kernel_frame_sp k stack stack_size = ksp"
    and csp_eq: "caller_frame_sp k stack stack_size = csp"
    and fsp_eq: "callee_frame_sp k stack stack_size = fsp"
    by (simp_all add: kernel_frame_sp_def caller_frame_sp_def callee_frame_sp_def
        ksp_def csp_def rsp_def fsp_def top_def)
  \<comment> \<open>the cell of \<open>task->thread.sp\<close> and the top of the stack\<close>
  from room nowrap have "unat stack + unat (THREAD_SP k) < 2 ^ 64"
    by (simp add: nat_defs)
  then have u_spf: "unat spf = B + T"
    unfolding spf_def nat_defs by (rule unat_add_nat)
  from alB al(5) have "(B + T) mod 8 = 0"
    by (rule aligned_sum)
  with u_spf have al_spf: "unat spf mod 8 = 0"
    by simp
  from nowrap have u_end: "unat (stack + stack_size) = B + S"
    unfolding nat_defs by (rule unat_add_nat)
  from room u_end have "unat (LWORD_SIZE k) \<le> unat (stack + stack_size)"
    by (simp add: nat_defs)
  then have "unat (stack + stack_size - LWORD_SIZE k) = unat (stack + stack_size) - unat (LWORD_SIZE k)"
    by (rule unat_sub_nat)
  with u_end have u_top: "unat top = B + S - l"
    by (simp add: top_def nat_defs)
  from alB alS have "(B + S) mod 8 = 0"
    by (rule aligned_sum)
  then have "(B + S - l) mod 8 = 0"
    using al(1) by (rule aligned_diff)
  with u_top have al_top: "unat top mod 8 = 0"
    by simp
  define m0 where "m0 = m(spf := top)"
  from al_spf have step0: "sp_assign spf top m = Some m0"
    by (simp add: sp_assign_Some m0_def)
  have sp0: "m0 spf = top"
    by (simp add: m0_def)
  \<comment> \<open>the kernel-entry frame\<close>
  from room u_spf u_top have room1: "unat spf + 8 + unat (KERNEL_STACK_FRAME_LENGTH k) \<le> unat top"
    by (simp add: nat_defs)
  from push_frame_region [where m = m0 and v = top and regs = "kernel_regs k task_runtime",
      OF al_spf sp0 al_top aligned_layout_sizes(2) [OF wf] aligned_layout_kernel [OF wf] room1, folded ksp_def nat_defs]
  obtain m1 where m1: "push_frame spf (KERNEL_STACK_FRAME_LENGTH k) (kernel_regs k task_runtime) m0 = Some m1"
    "m1 spf = ksp" "unat ksp = unat top - kl" "unat ksp mod 8 = 0"
    "\<forall>off x. (off, x) \<in> set (kernel_regs k task_runtime)
        \<and> (\<forall>x'. (off, x') \<in> set (kernel_regs k task_runtime) \<longrightarrow> x' = x) \<longrightarrow> m1 (ksp + off) = x"
    by (elim exE conjE) (rule that; assumption)
  have k1: "m1 (ksp + KERNEL_STACK_FRAME_MEPC k) = task_runtime" "m1 (ksp + KERNEL_STACK_FRAME_RA k) = 0"
    if ds: "distinct_slots k"
    using m1(5) kernel_regs_values [OF ds, of task_runtime] by blast+
  from m1(3) u_top have u_ksp: "unat ksp = B + S - l - kl"
    by simp
  \<comment> \<open>the caller-saved frame\<close>
  from room u_spf u_ksp have room2: "unat spf + 8 + unat (CALLER_STACK_FRAME_LENGTH k) \<le> unat ksp"
    by (simp add: nat_defs)
  from push_frame_region [where m = m1 and v = ksp and regs = "caller_regs k task_entry",
      OF al_spf m1(2) m1(4) aligned_layout_sizes(3) [OF wf] aligned_layout_caller [OF wf] room2, folded csp_def nat_defs]
  obtain m2 where m2: "push_frame spf (CALLER_STACK_FRAME_LENGTH k) (caller_regs k task_entry) m1 = Some m2"
    "m2 spf = csp" "unat csp = unat ksp - cl" "unat csp mod 8 = 0"
    "\<forall>a. a \<noteq> spf \<and> (unat a < unat ksp - cl \<or> unat ksp \<le> unat a) \<longrightarrow> m2 a = m1 a"
    "\<forall>off x. (off, x) \<in> set (caller_regs k task_entry)
        \<and> (\<forall>x'. (off, x') \<in> set (caller_regs k task_entry) \<longrightarrow> x' = x) \<longrightarrow> m2 (csp + off) = x"
    by (elim exE conjE) (rule that; assumption)
  from m2(3) u_ksp have u_csp: "unat csp = B + S - l - kl - cl"
    by simp
  have a0_2: "m2 (csp + CALLER_STACK_FRAME_A0 k) = task_entry" if ds: "distinct_slots k"
    using m2(6) caller_regs_a0 [OF ds, of task_entry] by blast
  have z2: "m2 (csp + off) = 0" if "distinct_slots k" and "off \<in> set (caller_zero_slots k)" for off
    using m2(6) caller_regs_zero [OF that, of task_entry] by blast
  \<comment> \<open>addresses at or above a frame pointer, and not the stack pointer's cell\<close>
  have above: "a \<noteq> spf \<and> unat v \<le> unat a"
    if "a = v + off" and "unat v + unat off < 2 ^ 64" and "B + T < unat v" for a v off
  proof -
    from that(2) have "unat (v + off) = unat v + unat off"
      by (rule unat_add_nat)
    with that(1,3) u_spf have "unat a \<noteq> unat spf" and "unat v \<le> unat a"
      by simp_all
    then show ?thesis
      by auto
  qed
  have k_above: "a \<noteq> spf \<and> unat ksp \<le> unat a"
    if "a = ksp + off" and "off \<in> set (kernel_slots k)" for a off
  proof (rule above [OF that(1)])
    from slot_bounds(1) [OF wf that(2)] u_ksp room nowrap
    show "unat ksp + unat off < 2 ^ 64"
      by (simp add: nat_defs)
    from u_ksp room show "B + T < unat ksp"
      by simp
  qed
  have c_above: "a \<noteq> spf \<and> unat csp \<le> unat a"
    if "a = csp + off" and "unat off + 8 \<le> cl" for a off
  proof (rule above [OF that(1)])
    from that(2) u_csp room nowrap show "unat csp + unat off < 2 ^ 64"
      by simp
    from u_csp room show "B + T < unat csp"
      by simp
  qed
  have k2: "m2 (ksp + KERNEL_STACK_FRAME_MEPC k) = task_runtime" "m2 (ksp + KERNEL_STACK_FRAME_RA k) = 0"
    if ds: "distinct_slots k"
    using k_above [of "ksp + KERNEL_STACK_FRAME_MEPC k" "KERNEL_STACK_FRAME_MEPC k"]
      k_above [of "ksp + KERNEL_STACK_FRAME_RA k" "KERNEL_STACK_FRAME_RA k"] m2(5) k1 [OF ds]
    by (simp_all add: kernel_slots_def)
  \<comment> \<open>the word of the trampoline\<close>
  from room u_spf u_csp have room3: "unat spf + 8 + unat (LWORD_SIZE k) \<le> unat csp"
    by (simp add: nat_defs)
  from push_frame_region [where m = m2 and v = csp
        and regs = "[(DWORD_SIZE k, ret_from_interrupt)]",
      OF al_spf m2(2) m2(4) aligned_layout_sizes(1) [OF wf] aligned_layout_trampoline [OF wf] room3, folded rsp_def nat_defs]
  obtain m3 where m3: "push_frame spf (LWORD_SIZE k) [(DWORD_SIZE k, ret_from_interrupt)] m2 = Some m3"
    "m3 spf = rsp" "unat rsp = unat csp - l" "unat rsp mod 8 = 0"
    "\<forall>a. a \<noteq> spf \<and> (unat a < unat csp - l \<or> unat csp \<le> unat a) \<longrightarrow> m3 a = m2 a"
    by (elim exE conjE) (rule that; assumption)
  from m3(3) u_csp have u_rsp: "unat rsp = B + S - l - kl - cl - l"
    by simp
  have keep3: "m3 a = m2 a" if "a \<noteq> spf \<and> unat csp \<le> unat a" for a
    using m3(5) that by simp
  \<comment> \<open>the callee-saved frame\<close>
  from room u_spf u_rsp have room4: "unat spf + 8 + unat (CALLEE_STACK_FRAME_LENGTH k) \<le> unat rsp"
    by (simp add: nat_defs)
  from push_frame_region [where m = m3 and v = rsp and regs = "callee_regs k",
      OF al_spf m3(2) m3(4) aligned_layout_sizes(4) [OF wf] aligned_layout_callee [OF wf] room4, folded fsp_def nat_defs]
  obtain m4 where m4: "push_frame spf (CALLEE_STACK_FRAME_LENGTH k) (callee_regs k) m3 = Some m4"
    "m4 spf = fsp" "unat fsp = unat rsp - el"
    "\<forall>a. a \<noteq> spf \<and> (unat a < unat rsp - el \<or> unat rsp \<le> unat a) \<longrightarrow> m4 a = m3 a"
    "\<forall>off x. (off, x) \<in> set (callee_regs k)
        \<and> (\<forall>x'. (off, x') \<in> set (callee_regs k) \<longrightarrow> x' = x) \<longrightarrow> m4 (fsp + off) = x"
    by (elim exE conjE) (rule that; assumption)
  from m4(3) u_rsp room have u_fsp: "unat fsp = B + S - (l + kl + cl + l + el)"
    by simp
  have keep4: "m4 a = m2 a" if "a \<noteq> spf \<and> unat csp \<le> unat a" for a
  proof -
    from that m3(3) have "a \<noteq> spf \<and> (unat a < unat rsp - el \<or> unat rsp \<le> unat a)"
      by auto
    with m4(4) have "m4 a = m3 a"
      by blast
    with keep3 [OF that] show ?thesis
      by simp
  qed
  have ksp_csp: "unat csp \<le> unat ksp"
    using m2(3) by simp
  \<comment> \<open>the image\<close>
  have run: "task_stack_init k task_runtime ret_from_interrupt stack stack_size task_entry m = Some m4"
    using step0 m1(1) m2(1) m3(1) m4(1)
    by (simp add: task_stack_init_frames spf_def [symmetric] top_def [symmetric])
  have mepc: "m4 (ksp + KERNEL_STACK_FRAME_MEPC k) = task_runtime" if ds: "distinct_slots k"
    using k_above [of "ksp + KERNEL_STACK_FRAME_MEPC k" "KERNEL_STACK_FRAME_MEPC k"] ksp_csp
      keep4 [of "ksp + KERNEL_STACK_FRAME_MEPC k"] k2(1) [OF ds]
    by (simp add: kernel_slots_def)
  have kra: "m4 (ksp + KERNEL_STACK_FRAME_RA k) = 0" if ds: "distinct_slots k"
    using k_above [of "ksp + KERNEL_STACK_FRAME_RA k" "KERNEL_STACK_FRAME_RA k"] ksp_csp
      keep4 [of "ksp + KERNEL_STACK_FRAME_RA k"] k2(2) [OF ds]
    by (simp add: kernel_slots_def)
  have a0: "m4 (csp + CALLER_STACK_FRAME_A0 k) = task_entry" if ds: "distinct_slots k"
    using c_above [of "csp + CALLER_STACK_FRAME_A0 k" "CALLER_STACK_FRAME_A0 k"]
      slot_bounds(3) [OF wf] keep4 [of "csp + CALLER_STACK_FRAME_A0 k"] a0_2 [OF ds]
    by (simp add: nat_defs)
  have zeros: "\<forall>off \<in> set (caller_zero_slots k). m4 (csp + off) = 0" if ds: "distinct_slots k"
  proof
    fix off assume off: "off \<in> set (caller_zero_slots k)"
    from slot_bounds(2) [OF wf off] have "unat off + 8 \<le> cl"
      by (simp add: nat_defs)
    with c_above [of "csp + off" off] have "csp + off \<noteq> spf \<and> unat csp \<le> unat (csp + off)"
      by simp
    with keep4 z2 [OF ds off] show "m4 (csp + off) = 0"
      by simp
  qed
  from mepc kra a0 zeros have filled: "distinct_slots k \<longrightarrow>
      m4 (ksp + KERNEL_STACK_FRAME_MEPC k) = task_runtime
      \<and> m4 (ksp + KERNEL_STACK_FRAME_RA k) = 0
      \<and> m4 (csp + CALLER_STACK_FRAME_A0 k) = task_entry
      \<and> (\<forall>off \<in> set (caller_zero_slots k). m4 (csp + off) = 0)"
    by simp
  have saved: "\<forall>off \<in> set (callee_slots k). m4 (fsp + off) = 0"
    using m4(5) callee_regs_zero by blast
  from u_fsp have size: "unat fsp = unat stack + unat stack_size - frames_size k"
    by (simp add: frames_size_def nat_defs)
  show ?thesis
    unfolding ksp_eq csp_eq fsp_eq spf_def [symmetric]
    by (intro exI [of _ m4] conjI) (rule run m4(2) size saved filled)+
qed

section \<open>The claims about the stack frame builder\<close>

lemma example_layout_fields:
  "LWORD_SIZE example_layout = 16" "DWORD_SIZE example_layout = 8"
  "KERNEL_STACK_FRAME_LENGTH example_layout = 16"
  "CALLER_STACK_FRAME_LENGTH example_layout = 128"
  "CALLEE_STACK_FRAME_LENGTH example_layout = 96"
  "THREAD_SP example_layout = 24"
  "kernel_regs example_layout x = [(0, x), (8, 0)]"
  "caller_regs example_layout x = [(0, 0), (8, 0), (16, 0), (24, 0), (32, 0), (40, 0), (48, 0),
     (56, x), (64, 0), (72, 0), (80, 0), (88, 0), (96, 0), (104, 0), (112, 0)]"
  "callee_regs example_layout = [(0, 0), (8, 0), (16, 0), (24, 0), (32, 0), (40, 0), (48, 0),
     (56, 0), (64, 0), (72, 0), (80, 0), (88, 0)]"
  by (simp_all add: example_layout_def kernel_regs_def caller_regs_def callee_regs_def)

lemma example_layout_wf: "aligned_layout example_layout"
  by (simp add: aligned_layout_def example_layout_def kernel_slots_def caller_zero_slots_def
      callee_slots_def)

lemma example_layout_distinct: "distinct_slots example_layout"
  by (simp add: distinct_slots_def example_layout_def caller_zero_slots_def)

lemma example_frames_size: "frames_size example_layout = 272"
  by (simp add: frames_size_def example_layout_def)

lemma example_stack_fits:
  "stack_fits example_layout 0x80000000 0x1000"
  "stack_fits example_layout 0x80000000 0x1008"
  by (simp_all add: stack_fits_def example_frames_size) (simp_all add: example_layout_def)

lemma example_frame_sp:
  "kernel_frame_sp example_layout 0x80000000 0x1000 = 0x80000FE0"
  "caller_frame_sp example_layout 0x80000000 0x1000 = 0x80000F60"
  "callee_frame_sp example_layout 0x80000000 0x1000 = 0x80000EF0"
  "callee_frame_sp example_layout 0x80000000 0x1008 = 0x80000EF8"
  by (simp_all add: kernel_frame_sp_def caller_frame_sp_def callee_frame_sp_def example_layout_def)

lemma callee_frame_sp_unat:
  assumes "aligned_layout k" and "stack_fits k stack stack_size"
  shows "unat (callee_frame_sp k stack stack_size) = unat stack + unat stack_size - frames_size k"
  using task_stack_init_image [OF assms, of 0 0 0 "\<lambda>a. 0"] by (elim exE conjE)

text \<open>
  Whatever the layout, the builder does not round: of two blocks at the same base whose
  sizes differ by 8, at most one gets a 16-byte aligned initial stack pointer.
\<close>

lemma task_stack_init_no_rounding:
  assumes wf: "aligned_layout k" and fits: "stack_fits k stack stack_size"
    and fits': "stack_fits k stack (stack_size + 8)"
    and more: "unat (stack_size + 8) = unat stack_size + 8"
  shows "\<not> (unat (callee_frame_sp k stack stack_size) mod 16 = 0
            \<and> unat (callee_frame_sp k stack (stack_size + 8)) mod 16 = 0)"
proof -
  from fits have "frames_size k \<le> unat stack_size"
    by (simp add: stack_fits_def)
  with callee_frame_sp_unat [OF wf fits] callee_frame_sp_unat [OF wf fits'] more
  have "unat (callee_frame_sp k stack (stack_size + 8))
      = unat (callee_frame_sp k stack stack_size) + 8"
    by simp
  then show ?thesis
    by presburger
qed

text \<open>
  Over a stack block that holds the frames, the function returns and the stack pointer
  it leaves in the task lies in the block, the bytes reserved below its end.
\<close>

lemma task_stack_init_sp_in_block:
  assumes wf: "aligned_layout k" and fits: "stack_fits k stack stack_size"
  shows "\<exists>sp0. initial_sp k stack
             (task_stack_init k task_runtime ret_from_interrupt stack stack_size task_entry m)
               = Some sp0
          \<and> sp0 = stack + stack_size - LWORD_SIZE k - KERNEL_STACK_FRAME_LENGTH k
                  - CALLER_STACK_FRAME_LENGTH k - LWORD_SIZE k - CALLEE_STACK_FRAME_LENGTH k
          \<and> unat sp0 = unat stack + unat stack_size - frames_size k
          \<and> unat stack \<le> unat sp0 \<and> unat sp0 < unat stack + unat stack_size
          \<and> ((unat stack + unat stack_size) mod 16 = 0 \<and> frames_size k mod 16 = 0
                \<longrightarrow> unat sp0 mod 16 = 0)"
proof -
  from task_stack_init_image [OF wf fits, of task_runtime ret_from_interrupt task_entry m]
  obtain m' where run: "task_stack_init k task_runtime ret_from_interrupt stack stack_size task_entry m = Some m'"
    and sp: "m' (stack + THREAD_SP k) = callee_frame_sp k stack stack_size"
    and size: "unat (callee_frame_sp k stack stack_size) = unat stack + unat stack_size - frames_size k"
    by (elim exE conjE) (rule that; assumption)
  define sp0 where "sp0 = callee_frame_sp k stack stack_size"
  from run sp have init: "initial_sp k stack
      (task_stack_init k task_runtime ret_from_interrupt stack stack_size task_entry m) = Some sp0"
    by (simp add: initial_sp_def peek_def sp0_def)
  have expr: "sp0 = stack + stack_size - LWORD_SIZE k - KERNEL_STACK_FRAME_LENGTH k
                  - CALLER_STACK_FRAME_LENGTH k - LWORD_SIZE k - CALLEE_STACK_FRAME_LENGTH k"
    by (simp add: sp0_def callee_frame_sp_def caller_frame_sp_def kernel_frame_sp_def)
  from size have u: "unat sp0 = unat stack + unat stack_size - frames_size k"
    by (simp add: sp0_def)
  from fits have room: "frames_size k \<le> unat stack_size"
    by (simp add: stack_fits_def)
  from slot_bounds(4) [OF wf] have pos: "0 < frames_size k"
    by (simp add: frames_size_def)
  from u room have lower: "unat stack \<le> unat sp0"
    by simp
  from u room pos have upper: "unat sp0 < unat stack + unat stack_size"
    by simp
  have aligned: "(unat stack + unat stack_size) mod 16 = 0 \<and> frames_size k mod 16 = 0
                \<longrightarrow> unat sp0 mod 16 = 0"
    unfolding u by presburger
  show ?thesis
    by (intro exI [of _ sp0] conjI) (rule init expr u lower upper aligned)+
qed

text \<open>
  C5. The claim asks that the initial stack pointer be 16-byte aligned and lie in the
  block, the working pointer being rounded down to 16-byte alignment before the frames
  are reserved. The comments of the source say the same (\<^verbatim>\<open>sp is 128 bits aligned\<close>,
  \<^verbatim>\<open>and 16-bytes align it\<close>), and no statement of the function rounds. Over a block of
  \<open>0x1008\<close> bytes at \<open>0x80000000\<close>, which holds the frames of the example layout and
  whose end is a multiple of 8 and not of 16, the function returns with the initial
  stack pointer \<open>0x80000EF8\<close>: inside the block, and 8 modulo 16.
\<close>

theorem task_stack_init_unaligned:
  "stack_fits example_layout 0x80000000 0x1008
     \<and> initial_sp example_layout 0x80000000
         (task_stack_init example_layout 0x80200000 0x80200100 0x80000000 0x1008 0x80000400
            stale_memory) = Some 0x80000EF8
     \<and> (0x80000000 :: u64) \<le> 0x80000EF8 \<and> (0x80000EF8 :: u64) < 0x80000000 + 0x1008
     \<and> unat (0x80000EF8 :: u64) mod 16 = 8
     \<and> unat (0x80000EF8 :: u64) mod 16 \<noteq> 0"
proof -
  from task_stack_init_image [OF example_layout_wf example_stack_fits(2),
      of "0x80200000" "0x80200100" "0x80000400" stale_memory]
  have unaligned: "initial_sp example_layout 0x80000000
         (task_stack_init example_layout 0x80200000 0x80200100 0x80000000 0x1008 0x80000400
            stale_memory) = Some 0x80000EF8"
    by (auto simp: initial_sp_def peek_def example_frame_sp)
  from unaligned example_stack_fits(2) show ?thesis
    by simp
qed

text \<open>
  C6. For a layout the builder can work with and a stack block that holds the frames,
  the memory \<^verbatim>\<open>task_stack_init\<close> leaves for an entry function \<open>task_entry\<close> holds: in the
  kernel-entry frame, the address of \<^verbatim>\<open>task_runtime\<close> in the slot of the program counter
  on resume and zero in the slot of the return address; in the caller-saved frame, zero
  in the slot of every scratch and argument register but that of \<^verbatim>\<open>a0\<close>, which holds
  \<open>task_entry\<close>; zero in every slot of the callee-saved frame. The stack pointer saved
  in the task points at the callee-saved frame.
\<close>

theorem task_stack_init_memory_image:
  assumes wf: "aligned_layout k" and ds: "distinct_slots k"
    and fits: "stack_fits k stack stack_size"
  shows "\<exists>m'. task_stack_init k task_runtime ret_from_interrupt stack stack_size task_entry m = Some m'
          \<and> m' (kernel_frame_sp k stack stack_size + KERNEL_STACK_FRAME_MEPC k) = task_runtime
          \<and> m' (kernel_frame_sp k stack stack_size + KERNEL_STACK_FRAME_RA k) = 0
          \<and> m' (caller_frame_sp k stack stack_size + CALLER_STACK_FRAME_A0 k) = task_entry
          \<and> (\<forall>off \<in> set (caller_zero_slots k). m' (caller_frame_sp k stack stack_size + off) = 0)
          \<and> (\<forall>off \<in> set (callee_slots k). m' (callee_frame_sp k stack stack_size + off) = 0)
          \<and> m' (stack + THREAD_SP k) = callee_frame_sp k stack stack_size"
proof -
  from task_stack_init_image [OF wf fits, of task_runtime ret_from_interrupt task_entry m]
  obtain m' where run: "task_stack_init k task_runtime ret_from_interrupt stack stack_size task_entry m = Some m'"
    and sp: "m' (stack + THREAD_SP k) = callee_frame_sp k stack stack_size"
    and saved: "\<forall>off \<in> set (callee_slots k). m' (callee_frame_sp k stack stack_size + off) = 0"
    and filled: "distinct_slots k \<longrightarrow>
                m' (kernel_frame_sp k stack stack_size + KERNEL_STACK_FRAME_MEPC k) = task_runtime
              \<and> m' (kernel_frame_sp k stack stack_size + KERNEL_STACK_FRAME_RA k) = 0
              \<and> m' (caller_frame_sp k stack stack_size + CALLER_STACK_FRAME_A0 k) = task_entry
              \<and> (\<forall>off \<in> set (caller_zero_slots k).
                    m' (caller_frame_sp k stack stack_size + off) = 0)"
    by (elim exE conjE) (rule that; assumption)
  from filled ds have
    "m' (kernel_frame_sp k stack stack_size + KERNEL_STACK_FRAME_MEPC k) = task_runtime"
    "m' (kernel_frame_sp k stack stack_size + KERNEL_STACK_FRAME_RA k) = 0"
    "m' (caller_frame_sp k stack stack_size + CALLER_STACK_FRAME_A0 k) = task_entry"
    "\<forall>off \<in> set (caller_zero_slots k). m' (caller_frame_sp k stack stack_size + off) = 0"
    by simp_all
  with run saved sp show ?thesis
    by (intro exI [of _ m'] conjI)
qed

theorem task_stack_init_memory_image_witness:
  "aligned_layout example_layout \<and> distinct_slots example_layout
     \<and> stack_fits example_layout 0x80000000 0x1000
     \<and> peek 0x80000FE0 (task_stack_init example_layout 0x80200000 0x80200100 0x80000000 0x1000
          0x80000400 stale_memory) = Some 0x80200000
     \<and> peek 0x80000FE8 (task_stack_init example_layout 0x80200000 0x80200100 0x80000000 0x1000
          0x80000400 stale_memory) = Some 0
     \<and> peek 0x80000F98 (task_stack_init example_layout 0x80200000 0x80200100 0x80000000 0x1000
          0x80000400 stale_memory) = Some 0x80000400
     \<and> peek 0x80000F60 (task_stack_init example_layout 0x80200000 0x80200100 0x80000000 0x1000
          0x80000400 stale_memory) = Some 0
     \<and> peek 0x80000FD0 (task_stack_init example_layout 0x80200000 0x80200100 0x80000000 0x1000
          0x80000400 stale_memory) = Some 0
     \<and> peek 0x80000EF0 (task_stack_init example_layout 0x80200000 0x80200100 0x80000000 0x1000
          0x80000400 stale_memory) = Some 0
     \<and> peek 0x80000F48 (task_stack_init example_layout 0x80200000 0x80200100 0x80000000 0x1000
          0x80000400 stale_memory) = Some 0"
proof -
  from task_stack_init_memory_image [OF example_layout_wf example_layout_distinct
      example_stack_fits(1),
      of "0x80200000" "0x80200100" "0x80000400" stale_memory]
  obtain m' where run: "task_stack_init example_layout 0x80200000 0x80200100 0x80000000 0x1000
          0x80000400 stale_memory = Some m'"
    and mepc: "m' (0x80000FE0 + KERNEL_STACK_FRAME_MEPC example_layout) = 0x80200000"
    and kra: "m' (0x80000FE0 + KERNEL_STACK_FRAME_RA example_layout) = 0"
    and a0: "m' (0x80000F60 + CALLER_STACK_FRAME_A0 example_layout) = 0x80000400"
    and zeros: "\<forall>off \<in> set (caller_zero_slots example_layout). m' (0x80000F60 + off) = 0"
    and saved: "\<forall>off \<in> set (callee_slots example_layout). m' (0x80000EF0 + off) = 0"
    unfolding example_frame_sp by (elim exE conjE) (rule that; assumption)
  from zeros have "m' (0x80000F60 + 0) = 0" "m' (0x80000F60 + 112) = 0"
    by (simp_all add: caller_zero_slots_def example_layout_def)
  moreover from saved have "m' (0x80000EF0 + 0) = 0" "m' (0x80000EF0 + 88) = 0"
    by (simp_all add: callee_slots_def example_layout_def)
  moreover from mepc kra a0 have "m' 0x80000FE0 = 0x80200000" "m' 0x80000FE8 = 0"
    "m' 0x80000F98 = 0x80000400"
    by (simp_all add: example_layout_def)
  ultimately show ?thesis
    using run example_layout_wf example_layout_distinct example_stack_fits(1)
    by (simp add: peek_def)
qed

end
